theory Spec2Isabelle
  imports Complex_Main
begin

section \<open>Python strings\<close>

text \<open>
  A Python \<open>str\<close> is modelled as a \<open>string\<close>, each \<open>char\<close> read as one code point in
  the range 0..255 (ASCII and Latin-1).  The character classes below are those of
  \<open>str.isspace\<close>, \<open>str.lower\<close> and of the regular-expression classes \<open>\s\<close>, \<open>\d\<close>
  and \<open>\w\<close> on that range.  A falsy argument (\<open>None\<close> or the empty string) is the empty
  string unless a function's type says otherwise.
\<close>

definition isspace :: "char \<Rightarrow> bool" where
  "isspace c = (let n = (of_char c :: nat) in
     (9 \<le> n \<and> n \<le> 13) \<or> (28 \<le> n \<and> n \<le> 32) \<or> n = 133 \<or> n = 160)"

definition isdigit :: "char \<Rightarrow> bool" where
  "isdigit c = (let n = (of_char c :: nat) in 48 \<le> n \<and> n \<le> 57)"

definition isupper :: "char \<Rightarrow> bool" where
  "isupper c = (let n = (of_char c :: nat) in
     (65 \<le> n \<and> n \<le> 90) \<or> (192 \<le> n \<and> n \<le> 222 \<and> n \<noteq> 215))"

definition islower_shifting :: "char \<Rightarrow> bool" where
  \<comment> \<open>the lower-case letters whose upper-case form is 32 code points below\<close>
  "islower_shifting c = (let n = (of_char c :: nat) in
     (97 \<le> n \<and> n \<le> 122) \<or> (224 \<le> n \<and> n \<le> 254 \<and> n \<noteq> 247))"

definition iscased :: "char \<Rightarrow> bool" where
  "iscased c = (let n = (of_char c :: nat) in
     isupper c \<or> islower_shifting c \<or> n = 170 \<or> n = 181 \<or> n = 186 \<or> n = 223 \<or> n = 255)"

definition isword :: "char \<Rightarrow> bool" where
  \<comment> \<open>the class \<open>\w\<close>: alphanumeric code points and the underscore\<close>
  "isword c = (let n = (of_char c :: nat) in
     isdigit c \<or> isupper c \<or> islower_shifting c \<or> n = 95 \<or> n = 170 \<or> n = 178 \<or> n = 179
     \<or> n = 181 \<or> n = 185 \<or> n = 186 \<or> n = 188 \<or> n = 189 \<or> n = 190 \<or> n = 223 \<or> n = 255)"

definition lower_char :: "char \<Rightarrow> char" where
  \<comment> \<open>an upper-case letter moves up by 32, which sets bit 5 of its code point\<close>
  "lower_char c = (if isupper c
     then (case c of Char b0 b1 b2 b3 b4 b5 b6 b7 \<Rightarrow> Char b0 b1 b2 b3 b4 True b6 b7)
     else c)"

definition upper_char :: "char \<Rightarrow> char" where
  \<comment> \<open>title-casing one letter; the code points 181, 223 and 255, whose title-case form
      is not a single code point below 256, are left as they are\<close>
  "upper_char c = (if islower_shifting c
     then (case c of Char b0 b1 b2 b3 b4 b5 b6 b7 \<Rightarrow> Char b0 b1 b2 b3 b4 False b6 b7)
     else c)"

definition py_lower :: "string \<Rightarrow> string" where
  "py_lower s = map lower_char s"

fun title_from :: "bool \<Rightarrow> string \<Rightarrow> string" where
  "title_from prev [] = []"
| "title_from prev (c # cs) =
     (if prev then lower_char c else upper_char c) # title_from (iscased c) cs"

definition py_title :: "string \<Rightarrow> string" where
  "py_title s = title_from False s"

definition py_strip :: "string \<Rightarrow> string" where
  "py_strip s = rev (dropWhile isspace (rev (dropWhile isspace s)))"

fun startswith :: "string \<Rightarrow> string \<Rightarrow> bool" where
  "startswith s [] = True"
| "startswith [] (p # ps) = False"
| "startswith (c # s) (p # ps) = (c = p \<and> startswith s ps)"

definition endswith :: "string \<Rightarrow> string \<Rightarrow> bool" where
  "endswith s p = startswith (rev s) (rev p)"

fun contains :: "string \<Rightarrow> string \<Rightarrow> bool" where
  \<comment> \<open>\<open>contains p s\<close> is Python's \<open>p in s\<close>\<close>
  "contains p [] = (p = [])"
| "contains p (c # s) = (startswith (c # s) p \<or> contains p s)"

definition any_in :: "string list \<Rightarrow> string \<Rightarrow> bool" where
  \<comment> \<open>\<open>any(k in s for k in ks)\<close>\<close>
  "any_in ks s = list_ex (\<lambda>k. contains k s) ks"

fun split_where_from :: "(char \<Rightarrow> bool) \<Rightarrow> string \<Rightarrow> string \<Rightarrow> string list" where
  "split_where_from sep cur [] = [cur]"
| "split_where_from sep cur (c # cs) =
     (if sep c then cur # split_where_from sep [] cs
      else split_where_from sep (cur @ [c]) cs)"

definition split_where :: "(char \<Rightarrow> bool) \<Rightarrow> string \<Rightarrow> string list" where
  \<comment> \<open>\<open>re.split\<close> on a one-character class: empty pieces are kept\<close>
  "split_where sep s = split_where_from sep [] s"

definition split_on :: "char \<Rightarrow> string \<Rightarrow> string list" where
  \<comment> \<open>\<open>s.split(c)\<close> for a one-character separator\<close>
  "split_on c s = split_where (\<lambda>x. x = c) s"

definition split_ws :: "string \<Rightarrow> string list" where
  \<comment> \<open>\<open>s.split()\<close>: the maximal runs of non-whitespace\<close>
  "split_ws s = filter (\<lambda>w. w \<noteq> []) (split_where isspace s)"

fun join :: "string \<Rightarrow> string list \<Rightarrow> string" where
  "join sep [] = []"
| "join sep [w] = w"
| "join sep (w # v # ws) = w @ sep @ join sep (v # ws)"

fun replace_from :: "nat \<Rightarrow> string \<Rightarrow> string \<Rightarrow> string \<Rightarrow> string" where
  \<comment> \<open>the first argument counts the characters of a match still to be skipped\<close>
  "replace_from k old new [] = []"
| "replace_from (Suc k) old new (c # cs) = replace_from k old new cs"
| "replace_from 0 old new (c # cs) =
     (if startswith (c # cs) old then new @ replace_from (length old - 1) old new cs
      else c # replace_from 0 old new cs)"

definition replace :: "string \<Rightarrow> string \<Rightarrow> string \<Rightarrow> string" where
  \<comment> \<open>\<open>s.replace(old, new)\<close> for a non-empty \<open>old\<close>: matches are taken left to right\<close>
  "replace s old new = replace_from 0 old new s"

fun sub_ws :: "bool \<Rightarrow> string \<Rightarrow> string" where
  \<comment> \<open>\<open>re.sub(r'\s+', ' ', s)\<close>; the flag says that the previous character was whitespace\<close>
  "sub_ws prev [] = []"
| "sub_ws prev (c # cs) =
     (if isspace c then (if prev then sub_ws True cs else CHR '' '' # sub_ws True cs)
      else c # sub_ws False cs)"

section \<open>Library functions taken as parameters\<close>

text \<open>
  Three library functions are parameters of the model: the fuzzy similarity
  \<open>fuzz.partial_ratio\<close> (a score between 0 and 100), the network location that
  \<open>urllib.parse.urlparse\<close> extracts from a URL, which is \<open>None\<close> where \<open>urlparse\<close>
  raises \<open>ValueError\<close>, and the parser \<open>json.loads\<close>, which is \<open>None\<close> where it raises.
  Floating-point scores are modelled as real numbers.  A parsed JSON document is a value
  of type \<open>json\<close>; the keys of a \<open>JDict\<close> are distinct.
\<close>

datatype json = JNull | JBool bool | JNum int | JStr string | JList "json list"
  | JDict "(string \<times> json) list"

record pylib =
  partial_ratio :: "string \<Rightarrow> string \<Rightarrow> real"
  urlparse_netloc :: "string \<Rightarrow> string option"
  json_loads :: "string \<Rightarrow> json option"

fun netloc_end :: "string \<Rightarrow> string" where
  "netloc_end [] = []"
| "netloc_end (c # cs) =
     (if c = CHR ''/'' \<or> c = CHR ''?'' \<or> c = CHR ''#'' then [] else c # netloc_end cs)"

fun after_scheme :: "string \<Rightarrow> string option" where
  \<comment> \<open>the text after the first \<open>://\<close>\<close>
  "after_scheme [] = None"
| "after_scheme (c # cs) =
     (if startswith (c # cs) ''://'' then Some (drop 2 cs) else after_scheme cs)"

definition simple_netloc :: "string \<Rightarrow> string option" where
  \<comment> \<open>the network location of a URL of the plain form \<open>scheme://host/path\<close>, and the empty
      string for a text without \<open>://\<close>; used as a concrete \<open>urlparse\<close> in examples\<close>
  "simple_netloc u = (case after_scheme u of None \<Rightarrow> Some [] | Some r \<Rightarrow> Some (netloc_end r))"

datatype py_error = ValueError | KeyError | IndexError | TypeError | AttributeError
  | JSONDecodeError | ConnectionError

section \<open>citation\_audit\_verify\_nap.py\<close>

definition fuzz_partial_ratio :: "string \<Rightarrow> string \<Rightarrow> real" where
  \<comment> \<open>the module's own fallback class \<open>fuzz\<close>, used when no fuzzy-matching library is
      installed\<close>
  "fuzz_partial_ratio s1 s2 =
     (if s1 = [] \<or> s2 = [] then 0
      else if contains (py_lower s1) (py_lower s2) \<or> contains (py_lower s2) (py_lower s1) then 85
      else 0)"

definition normalize_text :: "string \<Rightarrow> string" where
  "normalize_text text = (if text = [] then [] else sub_ws False (py_strip (py_lower text)))"

definition normalize_phone :: "string \<Rightarrow> string" where
  "normalize_phone phone = (if phone = [] then [] else filter isdigit phone)"

subsection \<open>scrape\_content\<close>

text \<open>
  The three fetchers answer through the network.  A fetcher's answer is \<open>None\<close> when the
  call raises; the answer of an HTTP client is a status code and a body.  The trace lists
  every fetch that was attempted, in order.
\<close>

record net =
  camoufox :: "string \<Rightarrow> string option"
  cloudscraper :: "string \<Rightarrow> (nat \<times> string) option"
  jina :: "nat \<Rightarrow> string \<Rightarrow> (nat \<times> string) option"

datatype fetch = Camoufox string | Cloudscraper string | Jina string

definition camoufox_ok :: "string \<Rightarrow> bool" where
  "camoufox_ok content = (length content > 500 \<and>
     \<not> (length content < 5000 \<and>
        any_in [''verify you are human'', ''access denied'', ''enable javascript and cookies'']
          (py_lower content)))"

definition cloudscraper_ok :: "nat \<times> string \<Rightarrow> bool" where
  "cloudscraper_ok resp = (fst resp = 200 \<and> length (snd resp) > 200 \<and>
     \<not> any_in [''verify you are human'', ''captcha'', ''access denied'', ''please wait'']
         (py_lower (snd resp)))"

definition jina_ok :: "nat \<times> string \<Rightarrow> bool" where
  "jina_ok resp = (fst resp = 200 \<and> length (snd resp) > 100 \<and>
     \<not> contains ''verify you are human'' (py_lower (snd resp)) \<and>
     \<not> contains ''just a moment'' (py_lower (snd resp)))"

fun jina_attempts :: "net \<Rightarrow> string \<Rightarrow> nat \<Rightarrow> nat \<Rightarrow> string \<times> fetch list" where
  \<comment> \<open>the loop \<open>for attempt in range(max_retries)\<close>, from attempt number \<open>a\<close> with \<open>n\<close> to go\<close>
  "jina_attempts w url a 0 = ([], [])"
| "jina_attempts w url a (Suc n) =
     (case jina w a url of
        Some resp \<Rightarrow>
          if jina_ok resp then (snd resp, [Jina url])
          else (let (c, t) = jina_attempts w url (Suc a) n in (c, Jina url # t))
      | None \<Rightarrow> (let (c, t) = jina_attempts w url (Suc a) n in (c, Jina url # t)))"

definition accepted :: "('a \<Rightarrow> bool) \<Rightarrow> 'a option \<Rightarrow> 'a option" where
  \<comment> \<open>a tier's answer, if the tier did not raise and its answer passes the tier's test\<close>
  "accepted ok r = (case r of None \<Rightarrow> None | Some x \<Rightarrow> if ok x then Some x else None)"

definition scrape_content :: "net \<Rightarrow> string \<Rightarrow> nat \<Rightarrow> string \<times> fetch list" where
  "scrape_content w url max_retries =
     (case accepted camoufox_ok (camoufox w url) of
        Some content \<Rightarrow> (content, [Camoufox url])
      | None \<Rightarrow>
          (case accepted cloudscraper_ok (cloudscraper w url) of
             Some resp \<Rightarrow> (snd resp, [Camoufox url, Cloudscraper url])
           | None \<Rightarrow>
               (let (c, t) = jina_attempts w url 0 max_retries
                in (c, [Camoufox url, Cloudscraper url] @ t))))"

subsection \<open>verify\_nap\<close>

text \<open>
  The returned dictionary is a record.  A flag is \<open>Missing\<close> when the dictionary has no
  such key, \<open>PyNone\<close> when the key holds \<open>None\<close>.  The four-line summary is kept as its
  list of lines, each a marker and a text.
\<close>

datatype pyflag = Missing | PyNone | PyBool bool

datatype marker = Pass | Partial | Fail | NotChecked

datatype details_text = Text string | Summary "(marker \<times> string) list"

record nap_result =
  status :: string
  confidence :: int
  details :: details_text
  nap_name_ok :: pyflag
  nap_address_ok :: pyflag
  nap_phone_ok :: pyflag
  nap_website_ok :: pyflag

definition py_int :: "real \<Rightarrow> int" where
  \<comment> \<open>\<open>int(x)\<close> truncates towards zero\<close>
  "py_int x = (if 0 \<le> x then \<lfloor>x\<rfloor> else \<lceil>x\<rceil>)"

definition generate_detailed_description ::
  "bool \<Rightarrow> real \<Rightarrow> nat \<Rightarrow> pyflag \<Rightarrow> details_text" where
  "generate_detailed_description phone_found name_score address_score website_ok =
     Summary
      [ if name_score \<ge> 90 then (Pass, ''Name: Found exactly'')
        else if name_score \<ge> 80 then (Pass, ''Name: Partial match'')
        else if name_score \<ge> 70 then (Partial, ''Name: Weak match'')
        else (Fail, ''Name: Not found''),
        if address_score \<ge> 80 then (Pass, ''Address: Found'')
        else if address_score \<ge> 60 then (Partial, ''Address: Partial'')
        else (Fail, ''Address: Not found''),
        if phone_found then (Pass, ''Phone: Verified'') else (Fail, ''Phone: Not found''),
        if website_ok = PyBool True then (Pass, ''Website: Link found'')
        else if website_ok = PyBool False then (Fail, ''Website: Not found'')
        else (NotChecked, ''Website: Not checked'') ]"

definition BLOCK_KEYWORDS :: "string list" where
  "BLOCK_KEYWORDS = [''403 forbidden'', ''access denied'', ''you are blocked'',
     ''captcha required'', ''verify you are human'', ''just a moment'', ''enable javascript'']"

definition is_blocked :: "string \<Rightarrow> bool" where
  "is_blocked content_norm = (any_in BLOCK_KEYWORDS content_norm \<and> length content_norm < 2000)"

definition blocked_details :: "string \<Rightarrow> string" where
  "blocked_details domain = ''Scraper blocked by '' @ py_title (hd (split_on CHR ''.'' domain))
     @ ''. NAP checks require manual verification.''"

definition phone_score_of :: "string \<Rightarrow> string \<Rightarrow> nat" where
  "phone_score_of phone content =
     (let phone_norm = normalize_phone phone in
      if phone_norm \<noteq> [] \<and> length phone_norm \<ge> 10
      then (if contains phone_norm (filter isdigit content) then 100 else 0)
      else 0)"

definition address_score_of :: "string list \<Rightarrow> string \<Rightarrow> nat" where
  \<comment> \<open>\<open>int((hits / total) * 100)\<close>, in exact arithmetic\<close>
  "address_score_of address_parts content_norm =
     (let parts = filter (\<lambda>p. p \<noteq> []) address_parts;
          total = length parts;
          hits = length (filter (\<lambda>p. contains (normalize_text p) content_norm) parts)
      in if total > 0 then (hits * 100) div total else 0)"

definition website_phrases :: "string list" where
  "website_phrases =
     [''visit website'', ''view website'', ''go to website'', ''website:'',
      ''visit site'', ''view site'', ''go to site'', ''official website'',
      ''click to visit'', ''click here to visit'', ''click to view'',
      ''visit their website'', ''view their website'', ''their website'',
      ''visit our website'', ''our website'', ''my website'',
      ''business website'', ''practice website'', ''clinic website'', ''office website'',
      ''company website'', ''doctor website'', ''dentist website'',
      ''www.'', ''http://'', ''https://'',
      ''homepage'', ''home page'', ''main site'',
      ''learn more at'', ''find us at'', ''see us at'',
      ''get directions'', ''contact us online'', ''book online'',
      ''schedule online'', ''request appointment'', ''online booking'',
      ''external link'', ''opens in new'', ''new window'', ''new tab'',
      ''[website]'', ''(website)'', ''web:'', ''url:'',
      ''visit now'', ''go now'', ''click here'']"

definition phrase_found :: "string \<Rightarrow> bool" where
  "phrase_found content_norm = any_in website_phrases content_norm"

definition website_domain_of :: "string \<Rightarrow> string" where
  "website_domain_of netloc = replace (py_lower netloc) ''www.'' []"

definition website_check :: "pylib \<Rightarrow> string option \<Rightarrow> string \<Rightarrow> pyflag" where
  \<comment> \<open>the \<open>try\<close> block of the website match; \<open>phrase_found\<close> is computed and not used\<close>
  "website_check lib website_url content_norm =
     (case website_url of
        None \<Rightarrow> PyNone
      | Some w \<Rightarrow>
          if w = [] then PyNone
          else (case urlparse_netloc lib w of
                  None \<Rightarrow> PyNone
                | Some netloc \<Rightarrow>
                    (let website_domain = website_domain_of netloc;
                         domain_found = (website_domain \<noteq> [] \<and> contains website_domain content_norm);
                         phrases = phrase_found content_norm
                     in if domain_found then PyBool True else PyBool False)))"

definition final_score_of :: "nat \<Rightarrow> real \<Rightarrow> nat \<Rightarrow> real" where
  "final_score_of phone_score name_score calc_address_score =
     (let final_score = real phone_score * (5 / 10) + name_score * (3 / 10)
                        + real calc_address_score * (2 / 10)
      in if phone_score = 100 then max final_score 90 else final_score)"

definition invalid_url_result :: nap_result where
  "invalid_url_result = \<lparr> status = ''not_found'', confidence = 0, details = Text ''Invalid URL'',
     nap_name_ok = Missing, nap_address_ok = Missing, nap_phone_ok = Missing,
     nap_website_ok = Missing \<rparr>"

definition scrape_error_result :: nap_result where
  "scrape_error_result = \<lparr> status = ''error'', confidence = 0,
     details = Text ''Could not scrape page'',
     nap_name_ok = Missing, nap_address_ok = Missing, nap_phone_ok = Missing,
     nap_website_ok = PyNone \<rparr>"

definition blocked_result :: "string \<Rightarrow> nap_result" where
  "blocked_result domain = \<lparr> status = ''found'', confidence = 0,
     details = Text (blocked_details domain),
     nap_name_ok = PyNone, nap_address_ok = PyNone, nap_phone_ok = PyNone,
     nap_website_ok = PyNone \<rparr>"

definition match_result ::
  "pylib \<Rightarrow> string \<Rightarrow> string \<Rightarrow> string \<Rightarrow> string list \<Rightarrow> string option \<Rightarrow> nap_result" where
  \<comment> \<open>the body of \<open>verify_nap\<close> after the block check, on the fetched \<open>content\<close>\<close>
  "match_result lib content business_name phone address_parts website_url =
     (let content_norm = normalize_text content;
          phone_score = phone_score_of phone content;
          name_score = partial_ratio lib (normalize_text business_name) content_norm;
          calc_address_score = address_score_of address_parts content_norm;
          website_ok = website_check lib website_url content_norm;
          final_score = final_score_of phone_score name_score calc_address_score
      in \<lparr> status = ''found'', confidence = py_int final_score,
           details = generate_detailed_description (phone_score = 100) name_score
                       calc_address_score website_ok,
           nap_name_ok = PyBool (name_score \<ge> 80),
           nap_address_ok = PyBool (calc_address_score \<ge> 60),
           nap_phone_ok = PyBool (phone_score = 100),
           nap_website_ok = website_ok \<rparr>)"

definition verify_nap ::
  "pylib \<Rightarrow> net \<Rightarrow> string option \<Rightarrow> string \<Rightarrow> string \<Rightarrow> string list \<Rightarrow> string option
   \<Rightarrow> (py_error + nap_result) \<times> fetch list" where
  "verify_nap lib w url business_name phone address_parts website_url =
     (case url of
        None \<Rightarrow> (Inr invalid_url_result, [])
      | Some u \<Rightarrow>
          if u = [] \<or> \<not> startswith u ''http'' then (Inr invalid_url_result, [])
          else
            (let (content, trace) = scrape_content w u 2 in
             if content = [] then (Inr scrape_error_result, trace)
             else if is_blocked (normalize_text content)
             then (case urlparse_netloc lib u of
                     None \<Rightarrow> (Inl ValueError, trace)
                   | Some netloc \<Rightarrow> (Inr (blocked_result (py_lower netloc)), trace))
             else (Inr (match_result lib content business_name phone address_parts website_url),
                   trace)))"


definition returned :: "(py_error + 'r) \<times> fetch list \<Rightarrow> 'r option" where
  \<comment> \<open>the value a run returned, \<open>None\<close> if it raised\<close>
  "returned run = (case fst run of Inl e \<Rightarrow> None | Inr r \<Rightarrow> Some r)"

section \<open>verify\_url.py\<close>

definition is_soft_404 :: "string \<Rightarrow> bool" where
  "is_soft_404 content0 =
     (let content = py_lower content0;
          lines = split_on (CHR 0x0A) content;
          filtered_lines = filter (\<lambda>line. \<not> startswith line ''url source:''
                                         \<and> \<not> startswith line ''title:'') lines;
          content = join [CHR 0x0A] filtered_lines
      in any_in [''page not found'', ''provider not found'', ''we couldn't find'',
                 ''we could not find'', ''no results for'', ''doesn't exist'',
                 ''does not exist'', ''error 404'', ''404 error'', ''page unavailable'',
                 ''profile not found'', ''find a doctor - doctor reviews''] content)"

definition is_search_result_page :: "string \<Rightarrow> string \<Rightarrow> bool" where
  "is_search_result_page content0 title0 =
     (let content = py_lower content0; title = py_lower title0
      in if startswith title ''search'' \<or> startswith title ''find''
            \<or> contains ''search results'' title
         then True
         else any_in [''search results for'', ''results for'', ''find a doctor'',
                      ''best doctors in'', ''top rated'', ''list of'', ''directory of'',
                      ''matching results'', ''providers found''] (take 1000 content))"

definition all_parts_in :: "string list \<Rightarrow> string \<Rightarrow> bool" where
  \<comment> \<open>\<open>all(part in text for part in name_parts if len(part) > 2)\<close>\<close>
  "all_parts_in name_parts text =
     list_all (\<lambda>part. contains part text) (filter (\<lambda>part. length part > 2) name_parts)"

definition check_text :: "string \<Rightarrow> string \<Rightarrow> string list \<Rightarrow> bool" where
  "check_text content required_text name_parts =
     (if is_soft_404 content then False
      else if is_search_result_page content [] then False
      else if contains (py_lower required_text) (py_lower content) then True
      else if all_parts_in name_parts (py_lower content) then True
      else False)"

text \<open>
  A request either raises (with the exception's message) or answers with a status code
  and a body.  A run makes up to three requests: the pre-check and the fallback request
  for the target URL, and the request to the reader proxy.  Each log line of the source
  is a constructor holding the values the line prints.  The stages of a run are
  recorded in order, the slug match among them.
\<close>

datatype http = Raises string | Response nat string

record url_net =
  pre_check_get :: "string \<Rightarrow> http"
  jina_reader_get :: "string \<Rightarrow> http"
  fallback_get :: "string \<Rightarrow> http"

datatype log_line =
    PreCheckDeadLink nat | PreCheckWarning string
  | JinaTextNotFound | JinaStatus nat | JinaError string
  | RequestsTextNotFound | RequestsDeadLink nat | RequestsStatus nat | RequestsError string
  | SlugNoMatch

datatype stage = PreCheck http | JinaReader http | Requests http | SlugMatch

text \<open>The key \<open>method\<close> of the returned dictionary is the field \<open>method_used\<close>.\<close>

record url_result =
  verified :: bool
  reason :: "string option"
  method_used :: "string option"
  log :: "log_line list option"

definition slug_stage ::
  "string \<Rightarrow> string \<Rightarrow> string list \<Rightarrow> log_line list \<Rightarrow> stage list
   \<Rightarrow> url_result \<times> stage list" where
  "slug_stage url clean_req name_parts lg st =
     (let slug = hd (split_on CHR ''?'' (py_lower url)) in
      if contains (replace clean_req '' '' ''-'') slug \<or> contains (replace clean_req '' '' []) slug
      then (\<lparr> verified = True, reason = None, method_used = Some ''slug_match'', log = Some lg \<rparr>,
            st @ [SlugMatch])
      else if all_parts_in name_parts slug
      then (\<lparr> verified = True, reason = None, method_used = Some ''slug_parts_match'',
               log = Some lg \<rparr>, st @ [SlugMatch])
      else (\<lparr> verified = False, reason = Some ''Verification failed'', method_used = None,
               log = Some (lg @ [SlugNoMatch]) \<rparr>, st @ [SlugMatch]))"

definition requests_stage ::
  "url_net \<Rightarrow> string \<Rightarrow> string \<Rightarrow> string list \<Rightarrow> log_line list \<Rightarrow> stage list
   \<Rightarrow> url_result \<times> stage list" where
  \<comment> \<open>every path that does not return sets \<open>request_failed_but_not_404\<close>, so the slug
      match follows it\<close>
  "requests_stage w url clean_req name_parts lg st =
     (let resp = fallback_get w url; st' = st @ [Requests resp] in
      case resp of
        Response code body \<Rightarrow>
          if code = 200 then
            (if check_text body clean_req name_parts
             then (\<lparr> verified = True, reason = None, method_used = Some ''requests'',
                      log = Some lg \<rparr>, st')
             else slug_stage url clean_req name_parts (lg @ [RequestsTextNotFound]) st')
          else if code = 404 \<or> code = 410 then
            (\<lparr> verified = False, reason = Some ''Dead Link (404/410)'', method_used = None,
               log = Some (lg @ [RequestsDeadLink code]) \<rparr>, st')
          else slug_stage url clean_req name_parts (lg @ [RequestsStatus code]) st'
      | Raises e \<Rightarrow> slug_stage url clean_req name_parts (lg @ [RequestsError e]) st')"

definition jina_stage ::
  "url_net \<Rightarrow> string \<Rightarrow> string \<Rightarrow> string list \<Rightarrow> log_line list \<Rightarrow> stage list
   \<Rightarrow> url_result \<times> stage list" where
  "jina_stage w url clean_req name_parts lg st =
     (let resp = jina_reader_get w (''https://r.jina.ai/'' @ url); st' = st @ [JinaReader resp] in
      case resp of
        Response code body \<Rightarrow>
          if code = 200 then
            (if check_text body clean_req name_parts
             then (\<lparr> verified = True, reason = None, method_used = Some ''jina'', log = Some lg \<rparr>,
                   st')
             else (\<lparr> verified = False, reason = Some ''Text not found (Jina)'', method_used = None,
                      log = Some (lg @ [JinaTextNotFound]) \<rparr>, st'))
          else requests_stage w url clean_req name_parts (lg @ [JinaStatus code]) st'
      | Raises e \<Rightarrow> requests_stage w url clean_req name_parts (lg @ [JinaError e]) st')"

definition verify_url :: "url_net \<Rightarrow> string \<Rightarrow> string \<Rightarrow> url_result \<times> stage list" where
  "verify_url w url required_text =
     (if url = [] \<or> required_text = []
      then (\<lparr> verified = False, reason = Some ''Missing input'', method_used = None, log = None \<rparr>,
            [])
      else
        (let clean_req = py_strip (replace (replace (py_lower required_text) ''dr.'' [])
                                     ''dr '' []);
             name_parts = split_ws clean_req;
             pre_resp = pre_check_get w url
         in case pre_resp of
              Response code body \<Rightarrow>
                if code = 404 \<or> code = 410
                then (\<lparr> verified = False, reason = Some ''Dead Link (404/410)'', method_used = None,
                         log = Some [PreCheckDeadLink code] \<rparr>, [PreCheck pre_resp])
                else jina_stage w url clean_req name_parts [] [PreCheck pre_resp]
            | Raises e \<Rightarrow>
                jina_stage w url clean_req name_parts [PreCheckWarning e] [PreCheck pre_resp]))"

section \<open>citation\_audit\_discovery.py\<close>

subsection \<open>verify\_url\_exists and get\_domain\<close>

text \<open>
  A reachability probe raises \<open>requests.RequestException\<close>, raises another exception, or
  answers with a status code.
\<close>

datatype probe = RequestException | OtherException | Status nat

datatype cse_answer = CseRaises | CseNoItems | CseItems "string option list"

datatype post_answer = PostRaises | PostResponse nat "json option"

record dir_net =
  head_probe :: "string \<Rightarrow> probe"
  get_probe :: "string \<Rightarrow> probe"
  cse_keys_present :: bool
  cse_search :: "string \<Rightarrow> cse_answer"
  research_post :: "string \<Rightarrow> string \<Rightarrow> string \<Rightarrow> string \<Rightarrow> string \<Rightarrow> post_answer"

definition get_reachable :: "dir_net \<Rightarrow> string \<Rightarrow> bool" where
  "get_reachable w url = (case get_probe w url of Status code \<Rightarrow> code < 400 | _ \<Rightarrow> False)"

definition verify_url_exists :: "dir_net \<Rightarrow> string \<Rightarrow> bool" where
  "verify_url_exists w url =
     (case head_probe w url of
        Status code \<Rightarrow> if code < 400 then True else get_reachable w url
      | RequestException \<Rightarrow> get_reachable w url
      | OtherException \<Rightarrow> False)"

definition get_domain :: "pylib \<Rightarrow> string \<Rightarrow> string" where
  "get_domain lib url =
     (case urlparse_netloc lib url of
        None \<Rightarrow> []
      | Some domain \<Rightarrow> py_lower (if startswith domain ''www.'' then drop 4 domain else domain))"

subsection \<open>domain\_matches\_name\<close>

fun strip_tld :: "string list \<Rightarrow> string \<Rightarrow> string" where
  \<comment> \<open>the loop over the TLD list, which stops at the first TLD the domain ends with\<close>
  "strip_tld [] target_domain = target_domain"
| "strip_tld (tld # tlds) target_domain =
     (if endswith target_domain tld
      then take (length target_domain - length tld) target_domain
      else strip_tld tlds target_domain)"

definition target_domain_of :: "string \<Rightarrow> string" where
  "target_domain_of domain =
     strip_tld [''.com'', ''.org'', ''.net'', ''.edu'', ''.gov'', ''.io'', ''.co'', ''.us'', ''.uk'']
       (py_lower domain)"

definition stop_words :: "string list" where
  "stop_words = [''the'', ''and'', ''or'', ''of'', ''for'', ''in'', ''a'', ''an'', ''at'', ''to'',
     ''by'', ''inc'', ''llc'', ''ltd'', ''com'', ''org'', ''net'']"

definition significant_words :: "string \<Rightarrow> string list" where
  "significant_words name =
     (let clean_name = filter (\<lambda>c. isword c \<or> isspace c) (py_lower name);
          words = split_ws clean_name
      in filter (\<lambda>w. w \<notin> set stop_words) words)"

definition acronym_of :: "string list \<Rightarrow> string" where
  \<comment> \<open>the first characters of the words, which \<open>split\<close> leaves non-empty\<close>
  "acronym_of ws = map hd ws"

definition acronym_match :: "string \<Rightarrow> string list \<Rightarrow> bool" where
  "acronym_match target_domain ws =
     (length ws > 1 \<and> length (acronym_of ws) \<ge> 2 \<and>
      (acronym_of ws \<in> set (split_where (\<lambda>c. c = CHR ''.'' \<or> c = CHR ''-'') target_domain)
       \<or> startswith target_domain (acronym_of ws)))"

definition keyword_matches :: "string \<Rightarrow> string list \<Rightarrow> nat" where
  "keyword_matches target_domain ws =
     length (filter (\<lambda>word. length word > 2 \<and> contains word target_domain) ws)"

definition domain_matches_name :: "string \<Rightarrow> string \<Rightarrow> bool" where
  "domain_matches_name domain name =
     (if domain = [] \<or> name = [] then False
      else
        (let target_domain = target_domain_of domain;
             ws = significant_words name
         in if acronym_match target_domain ws then True
            else if length ws \<le> 2 then keyword_matches target_domain ws \<ge> 1
            else keyword_matches target_domain ws \<ge> 2))"

subsection \<open>search\_correct\_domain\<close>

fun first_matching_link :: "pylib \<Rightarrow> string \<Rightarrow> string option list \<Rightarrow> string option" where
  \<comment> \<open>the loop over the search items; an item without a \<open>link\<close> raises \<open>KeyError\<close>, which
      the function's handler turns into \<open>None\<close>\<close>
  "first_matching_link lib directory_name [] = None"
| "first_matching_link lib directory_name (None # items) = None"
| "first_matching_link lib directory_name (Some link # items) =
     (if domain_matches_name (get_domain lib link) directory_name
      then Some (''https://'' @ get_domain lib link)
      else first_matching_link lib directory_name items)"

definition search_correct_domain :: "pylib \<Rightarrow> dir_net \<Rightarrow> string \<Rightarrow> string option" where
  "search_correct_domain lib w directory_name =
     (if \<not> cse_keys_present w then None
      else (case cse_search w directory_name of
              CseRaises \<Rightarrow> None
            | CseNoItems \<Rightarrow> None
            | CseItems items \<Rightarrow> first_matching_link lib directory_name items))"

subsection \<open>clean\_and\_validate\_directories\<close>

definition EXCLUDED_DIRECTORIES :: "string list" where
  "EXCLUDED_DIRECTORIES = [''facebook'', ''facebook business'', ''facebook business pages'',
     ''google business profile'', ''google business'', ''google my business'', ''gbp'',
     ''caredash'', ''care dash'']"

definition BAD_DOMAINS :: "string list" where
  "BAD_DOMAINS = [''clutch.co'', ''clutchco.com.au'', ''sortlist.com'', ''goodfirms.co'',
     ''upcity.com'', ''yext.com'', ''brightlocal.com'', ''moz.com'', ''semrush.com'',
     ''ahrefs.com'', ''whitespark.ca'', ''localviking.com'', ''reddit.com'', ''quora.com'',
     ''localstack.cloud'', ''mojo.vision'', ''provenexpert.com'', ''trustpilot.com'',
     ''trustindex.io'']"

definition BAD_TLDS :: "string \<Rightarrow> string list" where
  "BAD_TLDS country =
     (let c_lower = py_lower country in
        (if \<not> contains ''australia'' c_lower then [''.au'', ''.com.au''] else [])
      @ (if \<not> contains ''united kingdom'' c_lower \<and> \<not> contains ''uk'' c_lower
         then [''.uk'', ''.co.uk''] else [])
      @ (if \<not> contains ''canada'' c_lower then [''.ca''] else [])
      @ (if \<not> contains ''germany'' c_lower then [''.de''] else [])
      @ (if \<not> contains ''france'' c_lower then [''.fr''] else [])
      @ (if \<not> contains ''india'' c_lower then [''.in'', ''.co.in''] else []))"

definition KNOWN_DIRECTORIES :: "string list" where
  "KNOWN_DIRECTORIES = [''healthgrades.com'', ''zocdoc.com'', ''vitals.com'', ''ratemds.com'',
     ''webmd.com'', ''yelp.com'', ''yellowpages.com'', ''bbb.org'', ''manta.com'',
     ''superpages.com'', ''findatopdoc.com'', ''castleconnolly.com'', ''sharecare.com'',
     ''wellness.com'', ''usnews.com'', ''superdoctors.com'', ''hotfrog.com'', ''brownbook.net'',
     ''cylex.us.com'', ''foursquare.com'', ''mapquest.com'', ''nextdoor.com'', ''angi.com'',
     ''thumbtack.com'', ''chamberofcommerce.com'', ''medifind.com'', ''dexknows.com'',
     ''n49.com'', ''threebestrated.com'', ''opencare.com'', ''topratedlocal.com'']"

definition US_ONLY_DIRECTORIES :: "string list" where
  "US_ONLY_DIRECTORIES = [''mapquest.com'', ''angi.com'', ''thumbtack.com'', ''nextdoor.com'',
     ''homeadvisor.com'', ''angieslist.com'', ''superpages.com'', ''dexknows.com'',
     ''manta.com'', ''yellowpages.com'', ''whitepages.com'', ''citysearch.com'',
     ''local.com'', ''insiderpages.com'', ''kudzu.com'', ''merchantcircle.com'']"

definition BAD_COUNTRY_TERMS :: "string \<Rightarrow> string list" where
  "BAD_COUNTRY_TERMS country =
     (let c_lower = py_lower country in
        (if \<not> contains ''united states'' c_lower \<and> \<not> contains ''usa'' c_lower
         then [''usa'', ''united states'', ''america'', ''american'', ''us''] else [])
      @ (if \<not> contains ''united kingdom'' c_lower \<and> \<not> contains ''uk'' c_lower
         then [''uk'', ''united kingdom'', ''britain'', ''british''] else [])
      @ (if \<not> contains ''australia'' c_lower
         then [''australia'', ''australian'', ''sydney'', ''melbourne''] else [])
      @ (if \<not> contains ''canada'' c_lower then [''canada'', ''canadian''] else []))"

definition COMPETITOR_PATTERNS :: "string list" where
  "COMPETITOR_PATTERNS = []"

definition is_az09 :: "char \<Rightarrow> bool" where
  "is_az09 c = (let n = (of_char c :: nat) in (97 \<le> n \<and> n \<le> 122) \<or> (48 \<le> n \<and> n \<le> 57))"

definition wrong_country_name :: "string \<Rightarrow> string \<Rightarrow> bool" where
  "wrong_country_name country name_lower =
     (let tokens = split_where (\<lambda>c. \<not> is_az09 c) name_lower
      in list_ex (\<lambda>bad_term. bad_term \<in> set tokens) (BAD_COUNTRY_TERMS country))"

definition foreign_tld :: "string \<Rightarrow> string \<Rightarrow> bool" where
  \<comment> \<open>the test under \<open>Skip international TLDs\<close>\<close>
  "foreign_tld country url =
     list_ex (\<lambda>tld. endswith (py_lower url) tld \<or> contains (tld @ ''/'') (py_lower url))
       (BAD_TLDS country)"

definition us_only_skip :: "string \<Rightarrow> string \<Rightarrow> bool" where
  "us_only_skip country domain =
     (let c_lower = py_lower country
      in \<not> contains ''united states'' c_lower \<and> \<not> contains ''usa'' c_lower
         \<and> domain \<in> set US_ONLY_DIRECTORIES)"

definition dict_get_stripped :: "json \<Rightarrow> string \<Rightarrow> py_error + string" where
  \<comment> \<open>\<open>d.get(key, '').strip()\<close>: only a dictionary has \<open>get\<close>, only a string has \<open>strip\<close>\<close>
  "dict_get_stripped d key =
     (case d of
        JDict kvs \<Rightarrow>
          (case map_of kvs key of
             None \<Rightarrow> Inr (py_strip [])
           | Some (JStr s) \<Rightarrow> Inr (py_strip s)
           | Some _ \<Rightarrow> Inl AttributeError)
      | _ \<Rightarrow> Inl AttributeError)"

fun dict_set :: "(string \<times> json) list \<Rightarrow> string \<Rightarrow> json \<Rightarrow> (string \<times> json) list" where
  "dict_set [] key v = [(key, v)]"
| "dict_set ((k, x) # kvs) key v =
     (if k = key then (k, v) # kvs else (k, x) # dict_set kvs key v)"

definition set_url :: "json \<Rightarrow> string \<Rightarrow> json" where
  \<comment> \<open>\<open>d['url'] = url\<close> on a value known to be a dictionary\<close>
  "set_url d url = (case d of JDict kvs \<Rightarrow> JDict (dict_set kvs ''url'' (JStr url)) | _ \<Rightarrow> d)"

definition validate_candidate ::
  "pylib \<Rightarrow> dir_net \<Rightarrow> json \<Rightarrow> string \<Rightarrow> string \<Rightarrow> json option" where
  \<comment> \<open>the reachability and identity checks and the correction; \<open>None\<close> discards\<close>
  "validate_candidate lib w d name url =
     (let domain = get_domain lib url;
          is_reachable = verify_url_exists w url;
          is_semantic_match = domain_matches_name domain name
      in if is_reachable \<and> is_semantic_match
         then Some (set_url d (if startswith url ''http'' then url else ''https://'' @ url))
         else (case search_correct_domain lib w name of
                 Some corrected_url \<Rightarrow>
                   if corrected_url \<noteq> [] then Some (set_url d corrected_url) else None
               | None \<Rightarrow> None))"

definition process_directory ::
  "pylib \<Rightarrow> dir_net \<Rightarrow> string \<Rightarrow> string list \<Rightarrow> json
   \<Rightarrow> py_error + (json option \<times> string list)" where
  \<comment> \<open>one round of the loop: the entry kept (if any) and the names and domains seen\<close>
  "process_directory lib w country seen d =
     (case dict_get_stripped d ''name'' of
        Inl e \<Rightarrow> Inl e
      | Inr name \<Rightarrow>
          (case dict_get_stripped d ''url'' of
             Inl e \<Rightarrow> Inl e
           | Inr url \<Rightarrow>
               (let name_lower = py_lower name;
                    domain = py_lower (get_domain lib url);
                    is_whitelisted = any_in KNOWN_DIRECTORIES domain;
                    is_competitor = any_in COMPETITOR_PATTERNS domain;
                    domain_for_dedup = get_domain lib url
                in if name = [] \<or> url = [] then Inr (None, seen)
                   else if wrong_country_name country name_lower then Inr (None, seen)
                   else if any_in EXCLUDED_DIRECTORIES name_lower then Inr (None, seen)
                   else if is_competitor \<and> \<not> is_whitelisted then Inr (None, seen)
                   else if any_in BAD_DOMAINS domain then Inr (None, seen)
                   else if us_only_skip country domain then Inr (None, seen)
                   else if foreign_tld country url then Inr (None, seen)
                   else if name_lower \<in> set seen \<or> domain_for_dedup \<in> set seen
                   then Inr (None, seen)
                   else Inr (validate_candidate lib w d name url,
                             seen @ [name_lower, domain_for_dedup]))))"

fun clean_loop ::
  "pylib \<Rightarrow> dir_net \<Rightarrow> string \<Rightarrow> string list \<Rightarrow> json list \<Rightarrow> py_error + json list" where
  "clean_loop lib w country seen [] = Inr []"
| "clean_loop lib w country seen (d # ds) =
     (case process_directory lib w country seen d of
        Inl e \<Rightarrow> Inl e
      | Inr (kept, seen') \<Rightarrow>
          (case clean_loop lib w country seen' ds of
             Inl e \<Rightarrow> Inl e
           | Inr cleaned \<Rightarrow>
               Inr (case kept of None \<Rightarrow> cleaned | Some d' \<Rightarrow> d' # cleaned)))"

definition py_iter :: "json \<Rightarrow> py_error + json list" where
  \<comment> \<open>what \<open>for d in directories\<close> iterates over: the items of a list, the characters of
      a string, the keys of a dictionary; other values are not iterable\<close>
  "py_iter v =
     (case v of
        JList xs \<Rightarrow> Inr xs
      | JStr s \<Rightarrow> Inr (map (\<lambda>c. JStr [c]) s)
      | JDict kvs \<Rightarrow> Inr (map (\<lambda>kv. JStr (fst kv)) kvs)
      | _ \<Rightarrow> Inl TypeError)"

definition clean_and_validate_directories ::
  "pylib \<Rightarrow> dir_net \<Rightarrow> json \<Rightarrow> string \<Rightarrow> py_error + json list" where
  "clean_and_validate_directories lib w directories country =
     (case py_iter directories of
        Inl e \<Rightarrow> Inl e
      | Inr ds \<Rightarrow> clean_loop lib w country [] ds)"

subsection \<open>discover\_directories\<close>

definition getitem_key :: "json \<Rightarrow> string \<Rightarrow> py_error + json" where
  \<comment> \<open>\<open>v[key]\<close> for a string key\<close>
  "getitem_key v key =
     (case v of
        JDict kvs \<Rightarrow> (case map_of kvs key of None \<Rightarrow> Inl KeyError | Some x \<Rightarrow> Inr x)
      | _ \<Rightarrow> Inl TypeError)"

definition getitem_0 :: "json \<Rightarrow> py_error + json" where
  \<comment> \<open>\<open>v[0]\<close>\<close>
  "getitem_0 v =
     (case v of
        JList xs \<Rightarrow> (case xs of [] \<Rightarrow> Inl IndexError | x # _ \<Rightarrow> Inr x)
      | JStr s \<Rightarrow> (case s of [] \<Rightarrow> Inl IndexError | c # _ \<Rightarrow> Inr (JStr [c]))
      | JDict kvs \<Rightarrow> Inl KeyError
      | _ \<Rightarrow> Inl TypeError)"

definition bind :: "py_error + 'a \<Rightarrow> ('a \<Rightarrow> py_error + 'b) \<Rightarrow> py_error + 'b" where
  "bind m f = (case m of Inl e \<Rightarrow> Inl e | Inr x \<Rightarrow> f x)"

definition message_content :: "json \<Rightarrow> py_error + string" where
  \<comment> \<open>\<open>data['choices'][0]['message']['content']\<close>, then the \<open>replace\<close> calls and \<open>strip\<close>,
      which only a string has\<close>
  "message_content data =
     bind (getitem_key data ''choices'') (\<lambda>choices.
     bind (getitem_0 choices) (\<lambda>choice.
     bind (getitem_key choice ''message'') (\<lambda>message.
     bind (getitem_key message ''content'') (\<lambda>content.
       case content of
         JStr s \<Rightarrow> Inr (py_strip (replace (replace s ''```json'' []) ''```'' []))
       | _ \<Rightarrow> Inl AttributeError))))"

definition directories_of :: "json \<Rightarrow> py_error + json" where
  \<comment> \<open>the list inside the wrapper object, and \<open>len(directories)\<close> for the debug line\<close>
  "directories_of directories_data =
     (let directories =
            (case directories_data of
               JDict kvs \<Rightarrow> (case map_of kvs ''directories'' of None \<Rightarrow> JList [] | Some v \<Rightarrow> v)
             | _ \<Rightarrow> directories_data)
      in case directories of
           JNull \<Rightarrow> Inl TypeError
         | JBool b \<Rightarrow> Inl TypeError
         | JNum n \<Rightarrow> Inl TypeError
         | _ \<Rightarrow> Inr directories)"

definition discover_body ::
  "pylib \<Rightarrow> dir_net \<Rightarrow> string \<Rightarrow> string \<Rightarrow> string \<Rightarrow> string \<Rightarrow> string
   \<Rightarrow> py_error + json list" where
  \<comment> \<open>the body of the \<open>try\<close> block; the prompt depends on the arguments only, and so does
      the collaborator's answer\<close>
  "discover_body lib w business_name city state service_type country =
     (case research_post w business_name city state service_type country of
        PostRaises \<Rightarrow> Inl ConnectionError
      | PostResponse code parsed \<Rightarrow>
          if code \<noteq> 200 then Inr []
          else (case parsed of
                  None \<Rightarrow> Inl JSONDecodeError
                | Some data \<Rightarrow>
                    bind (message_content data) (\<lambda>content.
                      case json_loads lib content of
                        None \<Rightarrow> Inl JSONDecodeError
                      | Some directories_data \<Rightarrow>
                          bind (directories_of directories_data) (\<lambda>directories.
                            clean_and_validate_directories lib w directories country))))"

definition discover_directories ::
  "pylib \<Rightarrow> dir_net \<Rightarrow> string \<Rightarrow> string \<Rightarrow> string \<Rightarrow> string \<Rightarrow> string
   \<Rightarrow> py_error + json list" where
  \<comment> \<open>\<open>try: ... except Exception: return []\<close>; \<open>Inl\<close> would be an exception reaching the
      caller\<close>
  "discover_directories lib w business_name city state service_type country =
     (case discover_body lib w business_name city state service_type country of
        Inl e \<Rightarrow> Inr []
      | Inr verified_directories \<Rightarrow> Inr verified_directories)"

section \<open>discover\_profile\_url.py\<close>

subsection \<open>normalize\_name and name\_in\_text\<close>

definition strip_dr_prefix :: "string \<Rightarrow> string" where
  \<comment> \<open>\<open>re.sub(r'^dr\.?\s*', '', name)\<close>\<close>
  "strip_dr_prefix name =
     (if startswith name ''dr''
      then (let r = drop 2 name; r' = (if startswith r ''.'' then drop 1 r else r)
            in dropWhile isspace r')
      else name)"

definition credentials :: "string list" where
  "credentials = [''md'', ''dds'', ''dmd'', ''do'', ''phd'', ''facs'']"

definition strip_credential_at_end :: "string \<Rightarrow> string" where
  \<comment> \<open>removes a final credential, with its optional full stop and the whitespace before
      it, from a text that does not end in a newline\<close>
  "strip_credential_at_end name =
     (let r = rev name;
          r' = (if startswith r ''.'' then drop 1 r else r)
      in case find (\<lambda>c. startswith r' (rev c)
                         \<and> list_ex isspace (take 1 (drop (length c) r'))) credentials of
           None \<Rightarrow> name
         | Some c \<Rightarrow> rev (dropWhile isspace (drop (length c) r')))"

definition strip_credential :: "string \<Rightarrow> string" where
  \<comment> \<open>\<open>re.sub(r'\s+(md|dds|dmd|do|phd|facs)\.?$', '', name)\<close>; \<open>$\<close> also matches before a
      newline that ends the text\<close>
  "strip_credential name =
     (if name \<noteq> [] \<and> last name = CHR 0x0A
      then strip_credential_at_end (butlast name) @ [CHR 0x0A]
      else strip_credential_at_end name)"

definition normalize_name :: "string \<Rightarrow> string" where
  "normalize_name name =
     (if name = [] then []
      else py_strip (filter (\<lambda>c. isword c \<or> isspace c)
             (strip_credential (strip_dr_prefix (py_lower name)))))"

definition name_in_text :: "string \<Rightarrow> string \<Rightarrow> bool" where
  "name_in_text name txt =
     (if name = [] \<or> txt = [] then False
      else
        (let name_norm = normalize_name name;
             text_lower = py_lower txt;
             parts = filter (\<lambda>p. length p > 2) (split_ws name_norm)
         in if contains name_norm text_lower then True
            else if length parts \<ge> 2
            then (if contains (join '' '' (take 2 parts)) text_lower then True
                  else if length parts \<ge> 3 \<and> contains (join '' '' (take 3 parts)) text_lower
                  then True
                  else False)
            else if length parts = 1 \<and> hd parts \<in> set (split_ws text_lower) then True
            else False))"

subsection \<open>The search and the page requests\<close>

text \<open>
  \<open>search_serper\<close> answers through the network and never raises: it is taken by the
  list of results it returns for a query and a country code.  A page request answers as
  in \<open>verify_url\<close>.  The HTML parser gives the text of a page and its links, each a target
  and a link text.  The calls made to the network are recorded in order.
\<close>

record search_result =
  result_url :: string
  result_title :: string
  result_snippet :: string

record profile_net =
  search_serper :: "string \<Rightarrow> string \<Rightarrow> search_result list"
  page_get :: "string \<Rightarrow> http"
  bs4_installed :: bool
  soup_get_text :: "string \<Rightarrow> string"
  soup_links :: "string \<Rightarrow> (string \<times> string) list"

datatype net_call = SerperSearch string string | PageGet string

subsection \<open>validate\_and\_extract\_profile\<close>

record validation =
  valid :: bool
  profile_url :: "string option"
  blocked :: bool

fun extract_profile_link ::
  "string \<Rightarrow> string \<Rightarrow> (string \<times> string) list \<Rightarrow> string option" where
  \<comment> \<open>the loop over the links of a search page\<close>
  "extract_profile_link business_name directory_domain [] = None"
| "extract_profile_link business_name directory_domain ((href, link_text) # links) =
     (if any_in [''/search'', ''/category'', ''?q='', ''/find/''] (py_lower href)
      then extract_profile_link business_name directory_domain links
      else if name_in_text business_name (py_lower link_text) \<or> name_in_text business_name href
      then Some (if startswith href ''/'' then ''https://'' @ directory_domain @ href
                 else if startswith href ''http'' then href
                 else ''https://'' @ directory_domain @ ''/'' @ href)
      else extract_profile_link business_name directory_domain links)"

definition found_on_page :: "string \<Rightarrow> string \<Rightarrow> bool" where
  "found_on_page business_name page_text =
     (let name_parts = filter (\<lambda>p. length p > 2) (split_ws (normalize_name business_name))
      in if length name_parts \<ge> 2 then contains (join '' '' (take 2 name_parts)) page_text
         else length name_parts = 1 \<and> contains (hd name_parts) page_text)"

definition validate_and_extract_profile ::
  "profile_net \<Rightarrow> string \<Rightarrow> string \<Rightarrow> string \<Rightarrow> validation \<times> net_call list" where
  "validate_and_extract_profile w url business_name directory_domain =
     (if \<not> bs4_installed w
      then (\<lparr> valid = True, profile_url = Some url, blocked = False \<rparr>, [])
      else (case page_get w url of
              Raises e \<Rightarrow>
                (\<lparr> valid = True, profile_url = Some url, blocked = False \<rparr>, [PageGet url])
            | Response code body \<Rightarrow>
                if code \<noteq> 200
                then (\<lparr> valid = True, profile_url = Some url, blocked = True \<rparr>, [PageGet url])
                else if \<not> found_on_page business_name (py_lower (soup_get_text w body))
                then (\<lparr> valid = False, profile_url = None, blocked = False \<rparr>, [PageGet url])
                else if any_in [''/search'', ''/find'', ''/results'', ''?q='', ''?query='']
                          (py_lower url)
                then (case extract_profile_link business_name directory_domain
                             (soup_links w body) of
                        Some link \<Rightarrow>
                          (\<lparr> valid = True, profile_url = Some link, blocked = False \<rparr>,
                           [PageGet url])
                      | None \<Rightarrow>
                          (\<lparr> valid = True, profile_url = Some url, blocked = False \<rparr>,
                           [PageGet url]))
                else (\<lparr> valid = True, profile_url = Some url, blocked = False \<rparr>,
                      [PageGet url])))"

subsection \<open>discover\_profile\_url\<close>

record profile_answer =
  answer_status :: string
  answer_url :: string
  answer_title :: string
  match_reason :: string
  candidates :: "search_result list option"

fun corrected_domain :: "(string \<times> string) list \<Rightarrow> string \<Rightarrow> string \<Rightarrow> string" where
  \<comment> \<open>the loop over \<open>domain_corrections\<close>, which stops at the first keyword found in the
      directory's name\<close>
  "corrected_domain [] dir_name_lower directory_domain = directory_domain"
| "corrected_domain ((keyword, correct_domain) # rest) dir_name_lower directory_domain =
     (if contains keyword dir_name_lower then correct_domain
      else corrected_domain rest dir_name_lower directory_domain)"

definition domain_corrections :: "(string \<times> string) list" where
  "domain_corrections =
     [(''american dental association'', ''ada.org''),
      (''ada find-a-dentist'', ''ada.org''),
      (''academy of general dentistry'', ''agd.org''),
      (''american academy of cosmetic dentistry'', ''aacd.com''),
      (''american academy of implant dentistry'', ''aaid.com''),
      (''better business bureau'', ''bbb.org'')]"

definition is_us :: "string \<Rightarrow> bool" where
  "is_us country = (country = [] \<or> py_strip (py_lower country)
     \<in> set [''united states'', ''usa'', ''us'', ''united states of america''])"

definition location_term_of :: "string \<Rightarrow> string \<Rightarrow> string \<Rightarrow> string" where
  "location_term_of city state country = (if is_us country then city @ '' '' @ state else country)"

definition gl_param_of :: "string \<Rightarrow> string" where
  "gl_param_of country =
     (if country = [] then ''us''
      else (let c_lower = py_strip (py_lower country) in
            if c_lower \<in> set [''australia'', ''au''] then ''au''
            else if c_lower \<in> set [''canada'', ''ca''] then ''ca''
            else if c_lower \<in> set [''united kingdom'', ''uk'', ''gb'', ''great britain''] then ''uk''
            else if c_lower \<in> set [''new zealand'', ''nz''] then ''nz''
            else if c_lower \<in> set [''ireland'', ''ie''] then ''ie''
            else if c_lower \<in> set [''india'', ''in''] then ''in''
            else ''us''))"

definition is_profile_result :: "string \<Rightarrow> search_result \<Rightarrow> bool" where
  \<comment> \<open>\<open>is_profile\<close> at the end of a round of the classification loop\<close>
  "is_profile_result business_name r =
     (let url_lower = py_lower (result_url r);
          name_parts = filter (\<lambda>p. length p > 2 \<and> p \<notin> set [''the'', ''and'', ''of''])
                         (split_ws (normalize_name business_name))
      in (length name_parts \<ge> 2 \<and> contains (join ''-'' (take 2 name_parts)) url_lower)
         \<or> name_in_text business_name (result_title r)
         \<or> (any_in [''/top-'', ''/best-'', ''/list'', ''/find-'', ''-near-'', ''-in-''] url_lower
             \<and> (name_in_text business_name (result_title r)
                \<or> name_in_text business_name (result_snippet r))))"

definition is_doctor_result :: "string \<Rightarrow> search_result \<Rightarrow> bool" where
  "is_doctor_result doctor_name r =
     (doctor_name \<noteq> [] \<and> (name_in_text doctor_name (result_title r)
                            \<or> name_in_text doctor_name (result_snippet r)))"

definition is_list_result :: "string \<Rightarrow> search_result \<Rightarrow> bool" where
  \<comment> \<open>a list page that is added to \<open>list_matches\<close>\<close>
  "is_list_result business_name r =
     (any_in [''/top-'', ''/best-'', ''/list'', ''/find-'', ''-near-'', ''-in-'']
        (py_lower (result_url r))
      \<and> (name_in_text business_name (result_title r)
         \<or> name_in_text business_name (result_snippet r)))"

definition profile_matches :: "string \<Rightarrow> search_result list \<Rightarrow> search_result list" where
  "profile_matches business_name results = filter (is_profile_result business_name) results"

definition doctor_matches :: "string \<Rightarrow> string \<Rightarrow> search_result list \<Rightarrow> search_result list" where
  "doctor_matches business_name doctor_name results =
     filter (\<lambda>r. \<not> is_profile_result business_name r \<and> is_doctor_result doctor_name r) results"

definition list_matches :: "string \<Rightarrow> string \<Rightarrow> search_result list \<Rightarrow> search_result list" where
  "list_matches business_name doctor_name results =
     filter (\<lambda>r. \<not> is_profile_result business_name r \<and> \<not> is_doctor_result doctor_name r
                 \<and> is_list_result business_name r) results"

definition found_answer :: "search_result \<Rightarrow> string \<Rightarrow> search_result list \<Rightarrow> profile_answer" where
  "found_answer best why all_candidates =
     \<lparr> answer_status = ''found'', answer_url = result_url best,
       answer_title = result_title best, match_reason = why,
       candidates = Some all_candidates \<rparr>"

definition prioritize :: "string \<Rightarrow> string \<Rightarrow> search_result list \<Rightarrow> profile_answer" where
  \<comment> \<open>the classification of a non-empty list of results and the return that follows it;
      the statements of the source after the last of these returns are never reached\<close>
  "prioritize business_name doctor_name results =
     (let pm = profile_matches business_name results;
          dm = doctor_matches business_name doctor_name results;
          lm = list_matches business_name doctor_name results;
          all_candidates = pm @ dm @ lm
      in case pm of
           best # _ \<Rightarrow> found_answer best ''profile_match'' all_candidates
         | [] \<Rightarrow>
             (case dm of
                best # _ \<Rightarrow> found_answer best ''doctor_match'' all_candidates
              | [] \<Rightarrow>
                  (case lm of
                     best # _ \<Rightarrow> found_answer best ''list_match'' all_candidates
                   | [] \<Rightarrow>
                       \<lparr> answer_status = ''not_found'', answer_url = [], answer_title = [],
                         match_reason = ''uncertain_results'', candidates = Some results \<rparr>)))"

definition skip_domains :: "string list" where
  "skip_domains = [''google.com'', ''business.google.com'', ''google.com/maps'',
     ''facebook.com'', ''caredash.com'']"

definition search_stage ::
  "profile_net \<Rightarrow> string \<Rightarrow> string \<Rightarrow> string \<Rightarrow> string \<Rightarrow> string \<Rightarrow> string \<Rightarrow> string
   \<Rightarrow> search_result list \<times> net_call list" where
  \<comment> \<open>the site-scoped search and its retry without the location term: the results the
      classification works on, and the searches made\<close>
  "search_stage w directory_name directory_domain0 business_name doctor_name city state country =
     (let directory_domain =
            corrected_domain domain_corrections (py_lower directory_name) directory_domain0;
          search_name = (if doctor_name \<noteq> [] then doctor_name else business_name);
          location_term = location_term_of city state country;
          query = join '' '' (split_ws (''site:'' @ directory_domain @ '' \"'' @ search_name
                                         @ ''\" '' @ location_term));
          gl_param = gl_param_of country;
          results = search_serper w query gl_param;
          fallback_query = ''site:'' @ directory_domain @ '' \"'' @ search_name @ ''\"''
      in if results = [] \<and> location_term \<noteq> []
         then (search_serper w fallback_query gl_param,
               [SerperSearch query gl_param, SerperSearch fallback_query gl_param])
         else (results, [SerperSearch query gl_param]))"

definition discover_profile_url ::
  "profile_net \<Rightarrow> string \<Rightarrow> string \<Rightarrow> string \<Rightarrow> string \<Rightarrow> string \<Rightarrow> string \<Rightarrow> string
   \<Rightarrow> profile_answer \<times> net_call list" where
  "discover_profile_url w directory_name directory_domain business_name doctor_name city state
     country =
     (if directory_domain \<in> set skip_domains
      then (\<lparr> answer_status = ''not_searchable'', answer_url = [], answer_title = [],
              match_reason = ''gbp_not_searchable'', candidates = None \<rparr>, [])
      else
        (let (results, calls) = search_stage w directory_name directory_domain business_name
                                  doctor_name city state country
         in if results = []
            then (\<lparr> answer_status = ''not_found'', answer_url = [], answer_title = [],
                    match_reason = ''no_results'', candidates = None \<rparr>, calls)
            else (prioritize business_name doctor_name results, calls)))"

section \<open>Example inputs\<close>

definition removalists_entry :: json where
  "removalists_entry = JDict [(''name'', JStr ''Best Removalists''),
     (''url'', JStr ''https://bestremovalists.com.au''), (''category'', JStr ''specialty'')]"

definition removalists_json :: string where
  "removalists_json = ''{\"directories\": [{\"name\": \"Best Removalists\", \"url\": \"https://bestremovalists.com.au\", \"category\": \"specialty\"}]}''"

definition demo_json_loads :: "string \<Rightarrow> json option" where
  \<comment> \<open>a parser that knows one document and rejects every other text\<close>
  "demo_json_loads s =
     (if s = removalists_json then Some (JDict [(''directories'', JList [removalists_entry])])
      else None)"

definition demo_lib :: pylib where
  "demo_lib = \<lparr> partial_ratio = fuzz_partial_ratio, urlparse_netloc = simple_netloc,
     json_loads = demo_json_loads \<rparr>"

definition jina_only :: "string \<Rightarrow> net" where
  \<comment> \<open>a network on which the two browser tiers raise and the reader proxy serves \<open>page\<close>\<close>
  "jina_only page = \<lparr> camoufox = (\<lambda>u. None), cloudscraper = (\<lambda>u. None),
     jina = (\<lambda>a u. Some (200, page)) \<rparr>"

definition yelp_url :: string where
  "yelp_url = ''https://www.yelp.com/biz/acme-dental-austin''"

definition listing_page :: string where
  "listing_page = ''Acme Dental - 1200 Congress Ave, Austin, TX 78701. Call (512) 555-0100 today. Visit website for opening hours and directions.''"

definition listing_norm :: string where
  "listing_norm = ''acme dental - 1200 congress ave, austin, tx 78701. call (512) 555-0100 today. visit website for opening hours and directions.''"



definition yelp_trace :: "fetch list" where
  "yelp_trace = [Camoufox yelp_url, Cloudscraper yelp_url, Jina yelp_url]"

definition zenith_result :: nap_result where
  \<comment> \<open>the listing page checked for another business that has the listing's phone number\<close>
  "zenith_result = \<lparr> status = ''found'', confidence = 90,
     details = Summary [(Fail, ''Name: Not found''), (Fail, ''Address: Not found''),
                        (Pass, ''Phone: Verified''), (NotChecked, ''Website: Not checked'')],
     nap_name_ok = PyBool False, nap_address_ok = PyBool False, nap_phone_ok = PyBool True,
     nap_website_ok = PyNone \<rparr>"

definition acme_result :: nap_result where
  \<comment> \<open>the listing page checked for the business it lists, whose website it does not name\<close>
  "acme_result = \<lparr> status = ''found'', confidence = 95,
     details = Summary [(Pass, ''Name: Partial match''), (Pass, ''Address: Found''),
                        (Pass, ''Phone: Verified''), (Fail, ''Website: Not found'')],
     nap_name_ok = PyBool True, nap_address_ok = PyBool True, nap_phone_ok = PyBool True,
     nap_website_ok = PyBool False \<rparr>"

definition short_phone_result :: nap_result where
  \<comment> \<open>the listing page checked with the seven-digit phone number \<open>555-0100\<close>\<close>
  "short_phone_result = \<lparr> status = ''found'', confidence = 25,
     details = Summary [(Pass, ''Name: Partial match''), (Fail, ''Address: Not found''),
                        (Fail, ''Phone: Not found''), (NotChecked, ''Website: Not checked'')],
     nap_name_ok = PyBool True, nap_address_ok = PyBool False, nap_phone_ok = PyBool False,
     nap_website_ok = PyNone \<rparr>"


definition dead_url :: string where
  \<comment> \<open>a profile URL whose slug holds the business name \<open>acme-dental\<close>\<close>
  "dead_url = ''https://www.healthgrades.com/dentist/acme-dental''"

definition dead_net :: url_net where
  \<comment> \<open>the pre-check times out, the reader proxy is down, the fallback request answers 404\<close>
  "dead_net = \<lparr> pre_check_get = (\<lambda>u. Raises ''Read timed out''),
     jina_reader_get = (\<lambda>u. Response 503 []),
     fallback_get = (\<lambda>u. Response 404 ''Not Found'') \<rparr>"

definition dead_result :: url_result where
  "dead_result = \<lparr> verified = False, reason = Some ''Dead Link (404/410)'', method_used = None,
     log = Some [PreCheckWarning ''Read timed out'', JinaStatus 503, RequestsDeadLink 404] \<rparr>"

definition dead_stages :: "stage list" where
  "dead_stages = [PreCheck (Raises ''Read timed out''), JinaReader (Response 503 []),
     Requests (Response 404 ''Not Found'')]"

definition open_net :: "post_answer \<Rightarrow> dir_net" where
  \<comment> \<open>every URL is reachable, no search keys are configured, the research collaborator
      gives \<open>answer\<close>\<close>
  "open_net answer = \<lparr> head_probe = (\<lambda>u. Status 200), get_probe = (\<lambda>u. Status 200),
     cse_keys_present = False, cse_search = (\<lambda>q. CseNoItems),
     research_post = (\<lambda>business_name city state service_type country. answer) \<rparr>"

definition chat_answer :: "string \<Rightarrow> post_answer" where
  "chat_answer content = PostResponse 200 (Some (JDict [(''choices'',
     JList [JDict [(''message'', JDict [(''role'', JStr ''assistant''),
                                        (''content'', JStr content)])]])]))"

definition fenced_json :: string where
  "fenced_json = ''```json'' @ [CHR 0x0A] @ removalists_json @ [CHR 0x0A] @ ''```''"

definition apology :: string where
  "apology = ''I could not find any directories for this business.''"

definition other_listing :: search_result where
  \<comment> \<open>a search result whose address, title and snippet do not name Acme Dental\<close>
  "other_listing = \<lparr> result_url = ''https://www.yelp.com/biz/family-dentistry-austin'',
     result_title = ''Family Dentistry - Austin, TX - Yelp'',
     result_snippet = ''Specialties: general and cosmetic dentistry for the whole family.'' \<rparr>"

definition other_page :: string where
  "other_page = ''Family Dentistry, now part of Acme Dental. 1200 Congress Ave, Austin.''"

definition yelp_net :: profile_net where
  \<comment> \<open>the search gives that one result; its page, fetched, names Acme Dental\<close>
  "yelp_net = \<lparr> search_serper = (\<lambda>q gl. [other_listing]),
     page_get = (\<lambda>u. Response 200 other_page),
     bs4_installed = True,
     soup_get_text = (\<lambda>html. html),
     soup_links = (\<lambda>html. []) \<rparr>"

definition yelp_query :: string where
  "yelp_query = ''site:yelp.com \"Acme Dental\" Austin TX''"

section \<open>Properties of verify\_nap\<close>

lemmas char_class_defs = isspace_def isdigit_def isupper_def islower_shifting_def iscased_def
  isword_def lower_char_def upper_char_def

lemma scrape_listing:
  "scrape_content (jina_only listing_page) u 2 =
     (listing_page, [Camoufox u, Cloudscraper u, Jina u])"
  by (simp add: scrape_content_def accepted_def jina_only_def jina_ok_def listing_page_def
        py_lower_def char_class_defs numeral_2_eq_2)


lemma normalize_listing: "normalize_text listing_page = listing_norm"
  by (simp add: normalize_text_def listing_page_def listing_norm_def py_lower_def py_strip_def
        char_class_defs)


lemma listing_not_blocked: "\<not> is_blocked listing_norm"
  by (simp add: is_blocked_def any_in_def BLOCK_KEYWORDS_def listing_norm_def)


lemma yelp_url_http: "startswith yelp_url ''http''"
  by (simp add: yelp_url_def)

lemma startswith_http_nonempty: "startswith u ''http'' \<Longrightarrow> u \<noteq> []"
  by (cases u) simp_all


lemma verify_nap_reaches_match:
  assumes "startswith u ''http''" and "scrape_content w u 2 = (content, t)"
      and "content \<noteq> []" and "\<not> is_blocked (normalize_text content)"
  shows "verify_nap lib w (Some u) bn ph parts web =
           (Inr (match_result lib content bn ph parts web), t)"
  using assms startswith_http_nonempty [OF assms(1)]
  by (simp add: verify_nap_def)

lemma verify_nap_cases:
  assumes "verify_nap lib w url bn ph parts web = (Inr r, t)"
  shows "r = invalid_url_result \<or> r = scrape_error_result
       \<or> (\<exists>d. r = blocked_result d)
       \<or> (\<exists>content. r = match_result lib content bn ph parts web)"
  using assms
  by (auto simp: verify_nap_def Let_def split: option.splits if_splits prod.splits)

lemma py_int_ge: "90 \<le> x \<Longrightarrow> 90 \<le> py_int x"
  by (simp add: py_int_def le_floor_iff)

lemma final_score_floor: "90 \<le> final_score_of 100 n a"
  by (simp add: final_score_of_def)

lemma match_result_phone:
  "nap_phone_ok (match_result lib content bn ph parts web) =
     PyBool (phone_score_of ph content = 100)"
  by (simp add: match_result_def Let_def)

lemma match_result_website:
  "nap_website_ok (match_result lib content bn ph parts web) =
     website_check lib web (normalize_text content)"
  by (simp add: match_result_def Let_def)

lemma match_result_confidence:
  "confidence (match_result lib content bn ph parts web) =
     py_int (final_score_of (phone_score_of ph content)
        (partial_ratio lib (normalize_text bn) (normalize_text content))
        (address_score_of parts (normalize_text content)))"
  by (simp add: match_result_def Let_def)

lemma phone_score_100_iff:
  "phone_score_of ph content = 100 \<longleftrightarrow>
     10 \<le> length (normalize_phone ph) \<and> contains (normalize_phone ph) (filter isdigit content)"
  by (auto simp: phone_score_of_def Let_def)

lemma listing_phone_score: "phone_score_of ''512-555-0100'' listing_page = 100"
  by (simp add: phone_score_of_def normalize_phone_def isdigit_def listing_page_def)

lemma listing_short_phone:
  "normalize_phone ''555-0100'' = ''5550100'' \<and>
   filter isdigit listing_page = ''1200787015125550100''"
  by (simp add: normalize_phone_def isdigit_def listing_page_def)

lemma listing_name_score:
  "fuzz_partial_ratio (normalize_text ''Acme Dental'') listing_norm = 85"
  by (simp add: fuzz_partial_ratio_def normalize_text_def py_lower_def py_strip_def
        char_class_defs listing_norm_def)

lemma listing_other_name_score:
  "fuzz_partial_ratio (normalize_text ''Zenith Plumbing'') listing_norm = 0"
  by (simp add: fuzz_partial_ratio_def normalize_text_def py_lower_def py_strip_def
        char_class_defs listing_norm_def)

lemma listing_address_score:
  "address_score_of [''1200 Congress Ave'', ''Austin'', ''78701''] listing_norm = 100"
  by (simp add: address_score_of_def normalize_text_def py_lower_def py_strip_def
        char_class_defs listing_norm_def)

lemma no_address_score: "address_score_of [] c = 0"
  by (simp add: address_score_of_def)

lemma acme_website_domain:
  "simple_netloc ''https://www.acmedental.com'' = Some ''www.acmedental.com'' \<and>
   website_domain_of ''www.acmedental.com'' = ''acmedental.com''"
  by (simp add: simple_netloc_def website_domain_of_def py_lower_def char_class_defs replace_def)

lemma listing_lacks_domain: "\<not> contains ''acmedental.com'' listing_norm"
  by (simp add: listing_norm_def)

lemma listing_has_phrase: "phrase_found listing_norm"
  by (simp add: phrase_found_def any_in_def website_phrases_def listing_norm_def)

lemma listing_website_check:
  "website_check demo_lib (Some ''https://www.acmedental.com'') listing_norm = PyBool False"
  by (simp add: website_check_def demo_lib_def acme_website_domain listing_lacks_domain)

text \<open>
  C1.  Whenever \<open>verify_nap\<close> returns a record whose phone flag is true, the record's
  confidence is at least 90.
\<close>

theorem phone_ok_confidence_floor:
  assumes "verify_nap lib w url bn ph parts web = (Inr r, t)"
      and "nap_phone_ok r = PyBool True"
  shows "90 \<le> confidence r"
proof -
  from verify_nap_cases [OF assms(1)] assms(2)
  obtain content where r: "r = match_result lib content bn ph parts web"
    by (auto simp: invalid_url_result_def scrape_error_result_def blocked_result_def)
  with assms(2) have "phone_score_of ph content = 100"
    by (simp add: match_result_phone)
  then show ?thesis
    unfolding r match_result_confidence
    by (simp add: py_int_ge final_score_floor)
qed


lemma verify_nap_listing:
  "verify_nap lib (jina_only listing_page) (Some yelp_url) bn ph parts web =
     (Inr (match_result lib listing_page bn ph parts web), yelp_trace)"
  unfolding yelp_trace_def
  by (rule verify_nap_reaches_match [OF yelp_url_http scrape_listing])
     (simp_all add: normalize_listing listing_not_blocked, simp add: listing_page_def)

lemma zenith_run:
  "verify_nap demo_lib (jina_only listing_page) (Some yelp_url) ''Zenith Plumbing''
     ''512-555-0100'' [] None = (Inr zenith_result, yelp_trace)"
proof -
  have "match_result demo_lib listing_page ''Zenith Plumbing'' ''512-555-0100'' [] None
        = zenith_result"
    by (simp add: match_result_def normalize_listing listing_phone_score no_address_score
          demo_lib_def listing_other_name_score website_check_def final_score_of_def
          py_int_def generate_detailed_description_def zenith_result_def)
  then show ?thesis
    by (simp add: verify_nap_listing)
qed

theorem phone_ok_confidence_floor_witness:
  "verify_nap demo_lib (jina_only listing_page) (Some yelp_url) ''Zenith Plumbing''
     ''512-555-0100'' [] None = (Inr zenith_result, yelp_trace)
   \<and> nap_phone_ok zenith_result = PyBool True
   \<and> 90 \<le> confidence zenith_result"
proof -
  have flag: "nap_phone_ok zenith_result = PyBool True"
    by (simp add: zenith_result_def)
  from phone_ok_confidence_floor [OF zenith_run flag] zenith_run flag
  show ?thesis by simp
qed

text \<open>
  C10.  A call whose \<open>url\<close> is \<open>None\<close>, empty, or does not begin with \<open>http\<close> returns
  status \<open>not_found\<close>, confidence 0 and the details \<open>Invalid URL\<close>, and its trace of
  fetches is empty: nothing was requested from the network.
\<close>

theorem verify_nap_invalid_url:
  assumes "url = None \<or> url = Some [] \<or> (\<exists>u. url = Some u \<and> \<not> startswith u ''http'')"
  shows "verify_nap lib w url bn ph parts web =
           (Inr \<lparr> status = ''not_found'', confidence = 0, details = Text ''Invalid URL'',
                  nap_name_ok = Missing, nap_address_ok = Missing, nap_phone_ok = Missing,
                  nap_website_ok = Missing \<rparr>, [])"
  using assms
  by (auto simp: verify_nap_def invalid_url_result_def)

theorem verify_nap_invalid_url_witness:
  "\<not> startswith ''ftp://files.example.com/acme'' ''http''
   \<and> verify_nap demo_lib (jina_only listing_page) (Some ''ftp://files.example.com/acme'')
       ''Acme Dental'' ''512-555-0100'' [] None =
         (Inr \<lparr> status = ''not_found'', confidence = 0, details = Text ''Invalid URL'',
                nap_name_ok = Missing, nap_address_ok = Missing, nap_phone_ok = Missing,
                nap_website_ok = Missing \<rparr>, [])"
proof -
  have h: "\<not> startswith ''ftp://files.example.com/acme'' ''http''"
    by simp
  then have "Some ''ftp://files.example.com/acme'' = None
      \<or> Some ''ftp://files.example.com/acme'' = Some []
      \<or> (\<exists>u. Some ''ftp://files.example.com/acme'' = Some u \<and> \<not> startswith u ''http'')"
    by simp
  from verify_nap_invalid_url [OF this] h show ?thesis
    by simp
qed









lemma acme_run:
  "verify_nap demo_lib (jina_only listing_page) (Some yelp_url) ''Acme Dental''
     ''512-555-0100'' [''1200 Congress Ave'', ''Austin'', ''78701'']
     (Some ''https://www.acmedental.com'') = (Inr acme_result, yelp_trace)"
proof -
  have "match_result demo_lib listing_page ''Acme Dental'' ''512-555-0100''
          [''1200 Congress Ave'', ''Austin'', ''78701''] (Some ''https://www.acmedental.com'')
        = acme_result"
    by (simp add: match_result_def normalize_listing listing_phone_score listing_address_score
          listing_website_check listing_name_score
          demo_lib_def [THEN arg_cong, of partial_ratio] final_score_of_def
          py_int_def generate_detailed_description_def acme_result_def)
  then show ?thesis
    by (simp add: verify_nap_listing)
qed

lemma short_phone_run:
  "verify_nap demo_lib (jina_only listing_page) (Some yelp_url) ''Acme Dental''
     ''555-0100'' [] None = (Inr short_phone_result, yelp_trace)"
proof -
  have "phone_score_of ''555-0100'' listing_page = 0"
    by (simp add: phone_score_of_def listing_short_phone)
  then have "match_result demo_lib listing_page ''Acme Dental'' ''555-0100'' [] None
        = short_phone_result"
    by (simp add: match_result_def normalize_listing no_address_score
          demo_lib_def listing_name_score website_check_def final_score_of_def
          py_int_def generate_detailed_description_def short_phone_result_def)
  then show ?thesis
    by (simp add: verify_nap_listing)
qed

text \<open>
  C5 as stated fails: the listing page holds the phrase \<open>visit website\<close> and not the
  domain \<open>acmedental.com\<close>, and the website flag is false, not true.
\<close>

theorem website_phrase_counterexample:
  "verify_nap demo_lib (jina_only listing_page) (Some yelp_url) ''Acme Dental''
     ''512-555-0100'' [''1200 Congress Ave'', ''Austin'', ''78701'']
     (Some ''https://www.acmedental.com'') = (Inr acme_result, yelp_trace)
   \<and> contains ''visit website'' (normalize_text listing_page)
   \<and> phrase_found (normalize_text listing_page)
   \<and> \<not> contains ''acmedental.com'' (normalize_text listing_page)
   \<and> nap_website_ok acme_result = PyBool False"
proof -
  have "contains ''visit website'' listing_norm"
    by (simp add: listing_norm_def)
  then show ?thesis
    by (simp add: acme_run normalize_listing listing_has_phrase listing_lacks_domain
          acme_result_def)
qed

text \<open>
  C5, amended.  For a call that reaches the field checks (the URL begins with \<open>http\<close>,
  content was fetched and is not detected as blocked): the website flag is null when no
  website URL is supplied or \<open>urlparse\<close> rejects it; otherwise it is true exactly when
  the website's domain (the URL's host in lower case, with \<open>www.\<close> removed) is not empty
  and occurs in the normalised content, and false otherwise, whether or not a website
  phrase is present.
\<close>

theorem website_flag_by_domain_only:
  assumes "startswith u ''http''" and "scrape_content w u 2 = (content, t)"
      and "content \<noteq> []" and "\<not> is_blocked (normalize_text content)"
  shows "map_option nap_website_ok (returned (verify_nap lib w (Some u) bn ph parts web)) =
           Some (case web of
                   None \<Rightarrow> PyNone
                 | Some wu \<Rightarrow>
                     if wu = [] then PyNone
                     else (case urlparse_netloc lib wu of
                             None \<Rightarrow> PyNone
                           | Some netloc \<Rightarrow>
                               PyBool (website_domain_of netloc \<noteq> [] \<and>
                                 contains (website_domain_of netloc) (normalize_text content))))"
  by (simp add: verify_nap_reaches_match [OF assms] returned_def match_result_website
        website_check_def Let_def split: option.splits)

theorem website_flag_by_domain_only_witness:
  "startswith yelp_url ''http''
   \<and> scrape_content (jina_only listing_page) yelp_url 2 = (listing_page, yelp_trace)
   \<and> listing_page \<noteq> []
   \<and> \<not> is_blocked (normalize_text listing_page)
   \<and> phrase_found (normalize_text listing_page)
   \<and> map_option nap_website_ok
        (returned (verify_nap demo_lib (jina_only listing_page) (Some yelp_url) ''Acme Dental''
           ''512-555-0100'' [] (Some ''https://www.acmedental.com''))) = Some (PyBool False)"
proof -
  have s: "scrape_content (jina_only listing_page) yelp_url 2 = (listing_page, yelp_trace)"
    by (simp add: scrape_listing yelp_trace_def)
  have e: "listing_page \<noteq> []"
    by (simp add: listing_page_def)
  have b: "\<not> is_blocked (normalize_text listing_page)"
    by (simp add: normalize_listing listing_not_blocked)
  from website_flag_by_domain_only [OF yelp_url_http s e b, of demo_lib "''Acme Dental''"
      "''512-555-0100''" "[]" "Some ''https://www.acmedental.com''"]
  show ?thesis
    using s e b yelp_url_http
    by (simp add: demo_lib_def acme_website_domain normalize_listing listing_lacks_domain
          listing_has_phrase)
qed

text \<open>
  C6 as stated fails: the stored phone \<open>555-0100\<close> is not empty and its digits
  \<open>5550100\<close> occur in the digits of the page, and the phone flag is false.
\<close>

theorem short_phone_counterexample:
  "verify_nap demo_lib (jina_only listing_page) (Some yelp_url) ''Acme Dental''
     ''555-0100'' [] None = (Inr short_phone_result, yelp_trace)
   \<and> normalize_phone ''555-0100'' = ''5550100''
   \<and> contains (normalize_phone ''555-0100'') (filter isdigit listing_page)
   \<and> nap_phone_ok short_phone_result = PyBool False"
  by (simp add: short_phone_run listing_short_phone short_phone_result_def)

text \<open>
  C6, amended.  For a call that reaches the field checks (the URL begins with \<open>http\<close>,
  content was fetched and is not detected as blocked), the phone flag is true if and only
  if the digit-normalised stored phone has at least ten digits and is a contiguous
  substring of the digits of the page content; otherwise it is false.
\<close>

theorem phone_flag_iff_ten_digits:
  assumes "startswith u ''http''" and "scrape_content w u 2 = (content, t)"
      and "content \<noteq> []" and "\<not> is_blocked (normalize_text content)"
  shows "map_option nap_phone_ok (returned (verify_nap lib w (Some u) bn ph parts web)) =
           Some (PyBool (10 \<le> length (normalize_phone ph) \<and>
                         contains (normalize_phone ph) (filter isdigit content)))"
  by (simp add: verify_nap_reaches_match [OF assms] returned_def match_result_phone
        phone_score_100_iff)

theorem phone_flag_iff_ten_digits_witness:
  "startswith yelp_url ''http''
   \<and> scrape_content (jina_only listing_page) yelp_url 2 = (listing_page, yelp_trace)
   \<and> listing_page \<noteq> []
   \<and> \<not> is_blocked (normalize_text listing_page)
   \<and> map_option nap_phone_ok
        (returned (verify_nap demo_lib (jina_only listing_page) (Some yelp_url) ''Acme Dental''
           ''512-555-0100'' [] None)) = Some (PyBool True)"
proof -
  have s: "scrape_content (jina_only listing_page) yelp_url 2 = (listing_page, yelp_trace)"
    by (simp add: scrape_listing yelp_trace_def)
  have e: "listing_page \<noteq> []"
    by (simp add: listing_page_def)
  have b: "\<not> is_blocked (normalize_text listing_page)"
    by (simp add: normalize_listing listing_not_blocked)
  have p: "10 \<le> length (normalize_phone ''512-555-0100'') \<and>
           contains (normalize_phone ''512-555-0100'') (filter isdigit listing_page)"
    using listing_phone_score by (simp add: phone_score_100_iff)
  from phone_flag_iff_ten_digits [OF yelp_url_http s e b, of demo_lib "''Acme Dental''"
      "''512-555-0100''" "[]" None]
  show ?thesis
    using s e b p yelp_url_http by simp
qed


section \<open>Properties of verify\_url\<close>

lemma slug_stage_trace:
  "\<exists>r. slug_stage url c ps lg st = (r, st @ [SlugMatch])"
  by (simp add: slug_stage_def Let_def)

lemma requests_stage_dead:
  assumes "fallback_get w url = Response code body" and "code = 404 \<or> code = 410"
  shows "requests_stage w url c ps lg st =
           (\<lparr> verified = False, reason = Some ''Dead Link (404/410)'', method_used = None,
              log = Some (lg @ [RequestsDeadLink code]) \<rparr>, st @ [Requests (Response code body)])"
  using assms by (auto simp: requests_stage_def)

lemma requests_stage_alive:
  assumes "\<not> (\<exists>code body. fallback_get w url = Response code body \<and> (code = 404 \<or> code = 410))"
  shows "\<exists>r tl. requests_stage w url c ps lg st = (r, st @ Requests (fallback_get w url) # tl)
           \<and> (tl = [] \<or> tl = [SlugMatch])"
proof (cases "fallback_get w url")
  case (Raises e)
  with slug_stage_trace [of url c ps "lg @ [RequestsError e]" "st @ [Requests (Raises e)]"]
  show ?thesis
    by (auto simp: requests_stage_def Let_def)
next
  case (Response code body)
  with assms have nd: "code \<noteq> 404" "code \<noteq> 410"
    by auto
  show ?thesis
  proof (cases "code = 200")
    case True
    with Response
      slug_stage_trace [of url c ps "lg @ [RequestsTextNotFound]" "st @ [Requests (Response code body)]"]
    show ?thesis
      by (cases "check_text body c ps") (auto simp: requests_stage_def Let_def)
  next
    case False
    with Response nd
      slug_stage_trace [of url c ps "lg @ [RequestsStatus code]" "st @ [Requests (Response code body)]"]
    show ?thesis
      by (cases "check_text body c ps") (auto simp: requests_stage_def Let_def)
  qed
qed

lemma jina_stage_cases:
  "(\<exists>r. jina_stage w url c ps lg st =
          (r, st @ [JinaReader (jina_reader_get w (''https://r.jina.ai/'' @ url))]))
   \<or> (\<exists>lg'. jina_stage w url c ps lg st =
          requests_stage w url c ps lg'
            (st @ [JinaReader (jina_reader_get w (''https://r.jina.ai/'' @ url))]))"
  by (cases "jina_reader_get w (''https://r.jina.ai/'' @ url)")
     (auto simp: jina_stage_def Let_def)

lemma verify_url_missing:
  "url = [] \<or> rt = [] \<Longrightarrow> snd (verify_url w url rt) = []"
  by (auto simp: verify_url_def)

lemma verify_url_pre_dead:
  assumes "url \<noteq> []" and "rt \<noteq> []"
      and "pre_check_get w url = Response code body" and "code = 404 \<or> code = 410"
  shows "verify_url w url rt =
           (\<lparr> verified = False, reason = Some ''Dead Link (404/410)'', method_used = None,
              log = Some [PreCheckDeadLink code] \<rparr>, [PreCheck (Response code body)])"
  using assms by (auto simp: verify_url_def)

lemma verify_url_pre_alive:
  assumes "url \<noteq> []" and "rt \<noteq> []"
      and "\<not> (\<exists>code body. pre_check_get w url = Response code body \<and> (code = 404 \<or> code = 410))"
  shows "\<exists>c ps lg. verify_url w url rt =
           jina_stage w url c ps lg [PreCheck (pre_check_get w url)]"
  using assms
  by (cases "pre_check_get w url") (auto simp: verify_url_def Let_def)

text \<open>
  C2.  In a run of \<open>verify_url\<close>, if a request for the target URL (the pre-check or the
  fallback request) was made and answered 404 or 410, the result is not verified with the
  reason \<open>Dead Link (404/410)\<close>, that request is the last stage of the run, and the slug
  match is not among the run's stages.
\<close>

theorem dead_link_is_terminal:
  assumes run: "verify_url w url required_text = (r, st)"
      and code: "code = 404 \<or> code = 410"
      and seen: "PreCheck (Response code body) \<in> set st \<or> Requests (Response code body) \<in> set st"
  shows "verified r = False \<and> reason r = Some ''Dead Link (404/410)'' \<and> SlugMatch \<notin> set st
       \<and> (last st = PreCheck (Response code body) \<or> last st = Requests (Response code body))"
proof -
  from run seen verify_url_missing [of url required_text w]
  have ne: "url \<noteq> []" "required_text \<noteq> []"
    by auto
  show ?thesis
  proof (cases "\<exists>code body. pre_check_get w url = Response code body \<and> (code = 404 \<or> code = 410)")
    case True
    then obtain c b where p: "pre_check_get w url = Response c b" and d: "c = 404 \<or> c = 410"
      by blast
    from verify_url_pre_dead [OF ne p d] run seen show ?thesis
      by auto
  next
    case False
    then have pre_alive: "pre_check_get w url \<noteq> Response code body"
      using code by auto
    from verify_url_pre_alive [OF ne False] obtain c ps lg
      where v: "verify_url w url required_text =
                  jina_stage w url c ps lg [PreCheck (pre_check_get w url)]"
      by blast
    let ?j = "JinaReader (jina_reader_get w (''https://r.jina.ai/'' @ url))"
    let ?st1 = "[PreCheck (pre_check_get w url), ?j]"
    from jina_stage_cases [of w url c ps lg "[PreCheck (pre_check_get w url)]"]
    show ?thesis
    proof
      assume "\<exists>r. jina_stage w url c ps lg [PreCheck (pre_check_get w url)] =
                 (r, [PreCheck (pre_check_get w url)] @ [?j])"
      with v run have "st = ?st1"
        by auto
      with seen pre_alive show ?thesis
        by auto
    next
      assume "\<exists>lg'. jina_stage w url c ps lg [PreCheck (pre_check_get w url)] =
                 requests_stage w url c ps lg' ([PreCheck (pre_check_get w url)] @ [?j])"
      then obtain lg' where rs: "requests_stage w url c ps lg' ?st1 = (r, st)"
        using v run by auto
      show ?thesis
      proof (cases "\<exists>code body. fallback_get w url = Response code body \<and> (code = 404 \<or> code = 410)")
        case True
        then obtain c' b' where q: "fallback_get w url = Response c' b'"
            and d: "c' = 404 \<or> c' = 410"
          by blast
        from requests_stage_dead [OF q d, of c ps lg' ?st1] rs
        have "r = \<lparr> verified = False, reason = Some ''Dead Link (404/410)'', method_used = None,
                    log = Some (lg' @ [RequestsDeadLink c']) \<rparr>"
          and "st = ?st1 @ [Requests (Response c' b')]"
          by auto
        with seen pre_alive show ?thesis
          by auto
      next
        case nd: False
        then have req_alive: "fallback_get w url \<noteq> Response code body"
          using code by auto
        from requests_stage_alive [OF nd, of c ps lg' ?st1] rs
        obtain tl where "st = ?st1 @ Requests (fallback_get w url) # tl"
            and "tl = [] \<or> tl = [SlugMatch]"
          by auto
        with seen pre_alive req_alive show ?thesis
          by auto
      qed
    qed
  qed
qed

lemma dead_run: "verify_url dead_net dead_url ''Acme Dental'' = (dead_result, dead_stages)"
  by (simp add: verify_url_def jina_stage_def requests_stage_def dead_net_def dead_url_def
        dead_result_def dead_stages_def)

lemma dead_slug: "contains (replace ''acme dental'' '' '' ''-'') (hd (split_on CHR ''?'' (py_lower dead_url)))"
  by (simp add: replace_def dead_url_def split_on_def split_where_def py_lower_def char_class_defs)


theorem dead_link_is_terminal_witness:
  "verify_url dead_net dead_url ''Acme Dental'' = (dead_result, dead_stages)
   \<and> Requests (Response 404 ''Not Found'') \<in> set dead_stages
   \<and> contains (replace ''acme dental'' '' '' ''-'') (hd (split_on CHR ''?'' (py_lower dead_url)))
   \<and> verified dead_result = False
   \<and> reason dead_result = Some ''Dead Link (404/410)''
   \<and> SlugMatch \<notin> set dead_stages
   \<and> last dead_stages = Requests (Response 404 ''Not Found'')"
proof -
  have seen: "PreCheck (Response 404 ''Not Found'') \<in> set dead_stages
      \<or> Requests (Response 404 ''Not Found'') \<in> set dead_stages"
    by (simp add: dead_stages_def)
  have code: "(404::nat) = 404 \<or> (404::nat) = 410"
    by simp
  from dead_link_is_terminal [OF dead_run code seen] dead_run dead_slug
  show ?thesis
    by (simp add: dead_stages_def)
qed


section \<open>Properties of citation\_audit\_discovery\<close>

lemma ada_words: "significant_words ''American Dental Association'' = [''american'', ''dental'', ''association'']"
  by (simp add: significant_words_def py_lower_def split_ws_def split_where_def char_class_defs stop_words_def)

lemma ada_target: "target_domain_of ''ada.org'' = ''ada''"
  by (simp add: target_domain_of_def py_lower_def char_class_defs endswith_def)

lemma blog_target: "target_domain_of ''randomblog.com'' = ''randomblog''"
  by (simp add: target_domain_of_def py_lower_def char_class_defs endswith_def)

lemma ada_acronym: "acronym_of [''american'', ''dental'', ''association''] = ''ada''"
  by (simp add: acronym_of_def)

text \<open>
  C7.  The domain-identity check accepts \<open>ada.org\<close> for the name \<open>American Dental
  Association\<close>: the acronym \<open>ada\<close> of the three significant words is a token of the
  domain without its TLD.  It rejects \<open>randomblog.com\<close> for the same name: none of the
  three significant words occurs in the domain, and a name of three significant words
  needs two.
\<close>

theorem domain_identity_examples:
  "domain_matches_name ''ada.org'' ''American Dental Association'' = True
   \<and> acronym_of (significant_words ''American Dental Association'') = ''ada''
   \<and> ''ada'' \<in> set (split_where (\<lambda>c. c = CHR ''.'' \<or> c = CHR ''-'') (target_domain_of ''ada.org''))
   \<and> domain_matches_name ''randomblog.com'' ''American Dental Association'' = False
   \<and> length (significant_words ''American Dental Association'') = 3
   \<and> keyword_matches (target_domain_of ''randomblog.com'')
        (significant_words ''American Dental Association'') = 0"
  by (simp add: domain_matches_name_def ada_words ada_target blog_target acronym_match_def
        ada_acronym split_where_def keyword_matches_def)

lemma startswith_set: "startswith s p \<Longrightarrow> set p \<subseteq> set s"
  by (induction s p rule: startswith.induct) auto

lemma contains_set: "contains p s \<Longrightarrow> set p \<subseteq> set s"
proof (induction s)
  case Nil
  then show ?case by simp
next
  case (Cons c s)
  then show ?case
    using startswith_set [of "c # s" p] by auto
qed

lemma no_slash: "CHR ''/'' \<notin> set s \<Longrightarrow> \<not> contains (t @ ''/'') s"
  using contains_set [of "t @ ''/''" s] by auto

lemma startswith_length: "startswith s p \<Longrightarrow> s = p @ drop (length p) s"
  by (induction s p rule: startswith.induct) auto

lemma us_tlds: "BAD_TLDS ''United States'' = [''.au'', ''.com.au'', ''.uk'', ''.co.uk'', ''.ca'', ''.de'', ''.fr'', ''.in'', ''.co.in'']"
  by (simp add: BAD_TLDS_def py_lower_def char_class_defs)

lemma au_tlds: "BAD_TLDS ''Australia'' = [''.uk'', ''.co.uk'', ''.ca'', ''.de'', ''.fr'', ''.in'', ''.co.in'']"
  by (simp add: BAD_TLDS_def py_lower_def char_class_defs)

lemma endswith_com_au:
  assumes "endswith s ''.com.au''"
  shows "endswith s ''.au''"
proof -
  from assms have "startswith (rev s) ''ua.moc.''"
    by (simp add: endswith_def)
  from startswith_length [OF this] obtain r where "rev s = ''ua.moc.'' @ r"
    by blast
  then show ?thesis
    by (simp add: endswith_def)
qed

lemma foreign_us:
  assumes "endswith (py_lower url) ''.com.au''"
  shows "foreign_tld ''United States'' url"
  using endswith_com_au [OF assms] by (simp add: foreign_tld_def us_tlds)

lemma foreign_au:
  assumes u: "py_lower url = host \<or> py_lower url = ''https://'' @ host
              \<or> py_lower url = ''http://'' @ host"
      and h: "CHR ''/'' \<notin> set host" and e: "endswith host ''.com.au''"
  shows "\<not> foreign_tld ''Australia'' url"
proof -
  from e have "startswith (rev host) ''ua.moc.''"
    by (simp add: endswith_def)
  from startswith_length [OF this] obtain r where r: "rev host = ''ua.moc.'' @ r"
    by auto
  have ns: "\<And>t. \<not> contains (t @ ''/'') host"
    using no_slash [OF h] by simp
  note slashes = ns [of "''.uk''"] ns [of "''.co.uk''"] ns [of "''.ca''"] ns [of "''.de''"]
    ns [of "''.fr''"] ns [of "''.in''"] ns [of "''.co.in''"]
  from u consider (bare) "py_lower url = host" | (https) "py_lower url = ''https://'' @ host"
    | (http) "py_lower url = ''http://'' @ host"
    by blast
  then show ?thesis
  proof cases
    case bare
    with slashes show ?thesis
      by (simp add: foreign_tld_def au_tlds endswith_def r)
  next
    case https
    with slashes show ?thesis
      by (simp add: foreign_tld_def au_tlds endswith_def r)
  next
    case http
    with slashes show ?thesis
      by (simp add: foreign_tld_def au_tlds endswith_def r)
  qed
qed

lemma removalists_domain: "get_domain demo_lib ''https://bestremovalists.com.au'' = ''bestremovalists.com.au''"
  by (simp add: get_domain_def demo_lib_def simple_netloc_def py_lower_def char_class_defs)

lemma removalists_name_match: "domain_matches_name ''bestremovalists.com.au'' ''Best Removalists''"
  by (simp add: domain_matches_name_def significant_words_def py_lower_def split_ws_def
        split_where_def char_class_defs stop_words_def target_domain_of_def endswith_def
        acronym_match_def acronym_of_def keyword_matches_def)

lemma removalists_fields:
  "dict_get_stripped removalists_entry ''name'' = Inr ''Best Removalists''
   \<and> dict_get_stripped removalists_entry ''url'' = Inr ''https://bestremovalists.com.au''"
  by (simp add: dict_get_stripped_def removalists_entry_def py_strip_def char_class_defs)

lemma removalists_us_country: "\<not> wrong_country_name ''United States'' ''best removalists''"
  by (simp add: wrong_country_name_def BAD_COUNTRY_TERMS_def py_lower_def char_class_defs
        split_where_def is_az09_def)

lemma removalists_au_country: "\<not> wrong_country_name ''Australia'' ''best removalists''"
  by (simp add: wrong_country_name_def BAD_COUNTRY_TERMS_def py_lower_def char_class_defs
        split_where_def is_az09_def)

lemma removalists_not_excluded:
  "\<not> any_in EXCLUDED_DIRECTORIES ''best removalists''
   \<and> \<not> any_in BAD_DOMAINS ''bestremovalists.com.au''
   \<and> \<not> any_in COMPETITOR_PATTERNS ''bestremovalists.com.au''
   \<and> ''bestremovalists.com.au'' \<notin> set US_ONLY_DIRECTORIES"
  by (simp add: any_in_def EXCLUDED_DIRECTORIES_def BAD_DOMAINS_def COMPETITOR_PATTERNS_def
        US_ONLY_DIRECTORIES_def)

lemma removalists_foreign_us: "foreign_tld ''United States'' ''https://bestremovalists.com.au''"
  by (rule foreign_us) (simp add: py_lower_def char_class_defs endswith_def)

lemma removalists_foreign_au: "\<not> foreign_tld ''Australia'' ''https://bestremovalists.com.au''"
  by (rule foreign_au [where host = "''bestremovalists.com.au''"])
     (simp_all add: py_lower_def char_class_defs endswith_def)

lemma removalists_bare_foreign:
  "foreign_tld ''United States'' ''bestremovalists.com.au''
   \<and> \<not> foreign_tld ''Australia'' ''bestremovalists.com.au''"
  by (simp add: foreign_tld_def us_tlds au_tlds py_lower_def char_class_defs endswith_def)

lemma lower_removalists: "py_lower ''Best Removalists'' = ''best removalists''
   \<and> py_lower ''bestremovalists.com.au'' = ''bestremovalists.com.au''"
  by (simp add: py_lower_def char_class_defs)

lemma process_us:
  "process_directory demo_lib w ''United States'' [] removalists_entry = Inr (None, [])"
  by (simp add: process_directory_def removalists_fields removalists_domain lower_removalists
        removalists_us_country removalists_not_excluded us_only_skip_def removalists_foreign_us
        Let_def)

lemma process_au:
  "process_directory demo_lib (open_net a) ''Australia'' [] removalists_entry =
     Inr (Some removalists_entry, [''best removalists'', ''bestremovalists.com.au''])"
proof -
  have "validate_candidate demo_lib (open_net a) removalists_entry ''Best Removalists''
          ''https://bestremovalists.com.au'' = Some removalists_entry"
    by (simp add: validate_candidate_def removalists_domain removalists_name_match
          verify_url_exists_def open_net_def set_url_def removalists_entry_def)
  then show ?thesis
    by (simp add: process_directory_def removalists_fields removalists_domain lower_removalists
        removalists_au_country removalists_not_excluded us_only_skip_def removalists_foreign_au
        Let_def)
qed

lemma clean_us:
  "clean_and_validate_directories demo_lib w (JList [removalists_entry]) ''United States'' = Inr []"
  by (simp add: clean_and_validate_directories_def py_iter_def process_us)

lemma clean_au:
  "clean_and_validate_directories demo_lib (open_net a) (JList [removalists_entry]) ''Australia''
     = Inr [removalists_entry]"
  by (simp add: clean_and_validate_directories_def py_iter_def process_au)

lemma fenced_content:
  "message_content (JDict [(''choices'',
     JList [JDict [(''message'', JDict [(''role'', JStr ''assistant''),
                                        (''content'', JStr fenced_json)])]])]) = Inr removalists_json"
  by (simp add: message_content_def bind_def getitem_key_def getitem_0_def fenced_json_def
        removalists_json_def replace_def py_strip_def char_class_defs)

lemma apology_content:
  "message_content (JDict [(''choices'',
     JList [JDict [(''message'', JDict [(''role'', JStr ''assistant''),
                                        (''content'', JStr apology)])]])]) = Inr apology"
  by (simp add: message_content_def bind_def getitem_key_def getitem_0_def apology_def
        replace_def py_strip_def char_class_defs)

lemma apology_not_json: "json_loads demo_lib apology = None"
  by (simp add: demo_lib_def demo_json_loads_def apology_def removalists_json_def)

lemma discover_example:
  "discover_directories demo_lib (open_net (chat_answer fenced_json)) ''Best Removalists''
     ''Sydney'' ''NSW'' ''movers'' ''Australia'' = Inr [removalists_entry]"
  by (simp add: discover_directories_def discover_body_def open_net_def [THEN arg_cong, of research_post]
        chat_answer_def fenced_content demo_lib_def [THEN arg_cong, of json_loads]
        demo_json_loads_def bind_def directories_of_def
        clean_au [unfolded chat_answer_def])

lemma discover_apology_body:
  "discover_body demo_lib (open_net (chat_answer apology)) ''Best Removalists''
     ''Sydney'' ''NSW'' ''movers'' ''Australia'' = Inl JSONDecodeError"
  by (simp add: discover_body_def open_net_def [THEN arg_cong, of research_post]
        chat_answer_def apology_content apology_not_json bind_def)


text \<open>
  C8.  The foreign-TLD rule of \<open>clean_and_validate_directories\<close> excludes every URL ending
  in \<open>.com.au\<close> when the target country is \<open>United States\<close>, and does not exclude a
  homepage URL (a host without a path, bare or after \<open>http://\<close> or \<open>https://\<close>) whose
  host ends in \<open>.com.au\<close> when the target country is \<open>Australia\<close>; for a country naming Australia the exclusion list holds
  neither \<open>.au\<close> nor \<open>.com.au\<close>.  So it is for \<open>https://bestremovalists.com.au\<close>.
\<close>

theorem com_au_foreign_tld_rule:
  "(endswith (py_lower url) ''.com.au'' \<longrightarrow> foreign_tld ''United States'' url)
   \<and> ((py_lower url' = host \<or> py_lower url' = ''https://'' @ host
         \<or> py_lower url' = ''http://'' @ host)
        \<and> CHR ''/'' \<notin> set host \<and> endswith host ''.com.au''
        \<longrightarrow> \<not> foreign_tld ''Australia'' url')
   \<and> (contains ''australia'' (py_lower country)
        \<longrightarrow> ''.au'' \<notin> set (BAD_TLDS country) \<and> ''.com.au'' \<notin> set (BAD_TLDS country))
   \<and> ''.com.au'' \<in> set (BAD_TLDS ''United States'')
   \<and> foreign_tld ''United States'' ''https://bestremovalists.com.au''
   \<and> \<not> foreign_tld ''Australia'' ''https://bestremovalists.com.au''
   \<and> foreign_tld ''United States'' ''bestremovalists.com.au''
   \<and> \<not> foreign_tld ''Australia'' ''bestremovalists.com.au''"
proof -
  have "contains ''australia'' (py_lower country)
        \<longrightarrow> ''.au'' \<notin> set (BAD_TLDS country) \<and> ''.com.au'' \<notin> set (BAD_TLDS country)"
    by (simp add: BAD_TLDS_def Let_def)
  then show ?thesis
    using foreign_us [of url] foreign_au [of url' host]
    by (simp add: us_tlds removalists_foreign_us removalists_foreign_au
          removalists_bare_foreign)
qed

theorem com_au_foreign_tld_rule_witness:
  "endswith (py_lower ''https://www.YellowPages.com.au'') ''.com.au''
   \<and> py_lower ''https://www.YellowPages.com.au'' = ''https://'' @ ''www.yellowpages.com.au''
   \<and> CHR ''/'' \<notin> set ''www.yellowpages.com.au''
   \<and> endswith ''www.yellowpages.com.au'' ''.com.au''
   \<and> contains ''australia'' (py_lower ''Australia'')
   \<and> foreign_tld ''United States'' ''https://www.YellowPages.com.au''
   \<and> \<not> foreign_tld ''Australia'' ''https://www.YellowPages.com.au''
   \<and> ''.com.au'' \<notin> set (BAD_TLDS ''Australia'')
   \<and> clean_and_validate_directories demo_lib (open_net PostRaises)
        (JList [removalists_entry]) ''United States'' = Inr []
   \<and> clean_and_validate_directories demo_lib (open_net PostRaises)
        (JList [removalists_entry]) ''Australia'' = Inr [removalists_entry]"
proof -
  have a: "endswith (py_lower ''https://www.YellowPages.com.au'') ''.com.au''"
    by (simp add: py_lower_def char_class_defs endswith_def)
  have b: "py_lower ''https://www.YellowPages.com.au'' = ''https://'' @ ''www.yellowpages.com.au''"
    by (simp add: py_lower_def char_class_defs)
  have c: "CHR ''/'' \<notin> set ''www.yellowpages.com.au''"
    by simp
  have d: "endswith ''www.yellowpages.com.au'' ''.com.au''"
    by (simp add: endswith_def)
  have e: "contains ''australia'' (py_lower ''Australia'')"
    by (simp add: py_lower_def char_class_defs)
  from com_au_foreign_tld_rule [of "''https://www.YellowPages.com.au''"
      "''https://www.YellowPages.com.au''" "''www.yellowpages.com.au''" "''Australia''"]
  show ?thesis
    using a b c d e by (simp add: clean_us clean_au)
qed

text \<open>
  C9.  \<open>discover_directories\<close> never raises: it always returns a list.  Whenever a step
  of its body raises, the list is empty: when the request to the research collaborator
  fails, when the response is not JSON, when the response has not the expected shape,
  when the message content is not JSON (an empty content among them) or holds no
  iterable list, and when the validation of the entries raises.  A response with a status
  other than 200 gives the empty list too.
\<close>

theorem discover_directories_never_raises:
  "(\<exists>ds. discover_directories lib w bn city st svc country = Inr ds)
   \<and> (discover_body lib w bn city st svc country = Inl e
        \<longrightarrow> discover_directories lib w bn city st svc country = Inr [])
   \<and> (research_post w bn city st svc country = PostRaises
        \<longrightarrow> discover_directories lib w bn city st svc country = Inr [])
   \<and> (research_post w bn city st svc country = PostResponse code parsed \<and> code \<noteq> 200
        \<longrightarrow> discover_directories lib w bn city st svc country = Inr [])
   \<and> (research_post w bn city st svc country = PostResponse 200 None
        \<longrightarrow> discover_directories lib w bn city st svc country = Inr [])
   \<and> (research_post w bn city st svc country = PostResponse 200 (Some data)
        \<and> message_content data = Inl e1
        \<longrightarrow> discover_directories lib w bn city st svc country = Inr [])
   \<and> (research_post w bn city st svc country = PostResponse 200 (Some data)
        \<and> message_content data = Inr content \<and> json_loads lib content = None
        \<longrightarrow> discover_directories lib w bn city st svc country = Inr [])
   \<and> (research_post w bn city st svc country = PostResponse 200 (Some data)
        \<and> message_content data = Inr content \<and> json_loads lib content = Some directories_data
        \<and> directories_of directories_data = Inl e2
        \<longrightarrow> discover_directories lib w bn city st svc country = Inr [])
   \<and> (research_post w bn city st svc country = PostResponse 200 (Some data)
        \<and> message_content data = Inr content \<and> json_loads lib content = Some directories_data
        \<and> directories_of directories_data = Inr directories
        \<and> clean_and_validate_directories lib w directories country = Inl e3
        \<longrightarrow> discover_directories lib w bn city st svc country = Inr [])"
  by (simp add: discover_directories_def discover_body_def bind_def split: sum.splits)

theorem discover_directories_never_raises_witness:
  "research_post (open_net (chat_answer apology)) ''Best Removalists'' ''Sydney'' ''NSW''
       ''movers'' ''Australia'' = chat_answer apology
   \<and> discover_body demo_lib (open_net (chat_answer apology)) ''Best Removalists''
       ''Sydney'' ''NSW'' ''movers'' ''Australia'' = Inl JSONDecodeError
   \<and> discover_directories demo_lib (open_net (chat_answer apology)) ''Best Removalists''
       ''Sydney'' ''NSW'' ''movers'' ''Australia'' = Inr []
   \<and> discover_directories demo_lib (open_net (chat_answer fenced_json)) ''Best Removalists''
       ''Sydney'' ''NSW'' ''movers'' ''Australia'' = Inr [removalists_entry]"
proof -
  from discover_directories_never_raises [of demo_lib "open_net (chat_answer apology)"
      "''Best Removalists''" "''Sydney''" "''NSW''" "''movers''" "''Australia''" JSONDecodeError]
    discover_apology_body
  have "discover_directories demo_lib (open_net (chat_answer apology)) ''Best Removalists''
       ''Sydney'' ''NSW'' ''movers'' ''Australia'' = Inr []"
    by blast
  moreover have "research_post (open_net (chat_answer apology)) ''Best Removalists'' ''Sydney''
      ''NSW'' ''movers'' ''Australia'' = chat_answer apology"
    by (simp add: open_net_def)
  ultimately show ?thesis
    using discover_apology_body discover_example by simp
qed


section \<open>Properties of discover\_profile\_url\<close>

lemma acme_norm: "normalize_name ''Acme Dental'' = ''acme dental''"
  by (simp add: normalize_name_def py_lower_def strip_dr_prefix_def strip_credential_def
        strip_credential_at_end_def credentials_def py_strip_def char_class_defs)

lemma acme_parts: "split_ws ''acme dental'' = [''acme'', ''dental'']"
  by (simp add: split_ws_def split_where_def char_class_defs)

lemma other_title: "\<not> name_in_text ''Acme Dental'' ''Family Dentistry - Austin, TX - Yelp''"
  by (simp add: name_in_text_def acme_norm acme_parts py_lower_def char_class_defs)

lemma other_snippet: "\<not> name_in_text ''Acme Dental'' ''Specialties: general and cosmetic dentistry for the whole family.''"
  by (simp add: name_in_text_def acme_norm acme_parts py_lower_def char_class_defs)

lemma other_fields:
  "result_url other_listing = ''https://www.yelp.com/biz/family-dentistry-austin''
   \<and> result_title other_listing = ''Family Dentistry - Austin, TX - Yelp''
   \<and> result_snippet other_listing =
       ''Specialties: general and cosmetic dentistry for the whole family.''"
  by (simp add: other_listing_def)

lemma other_not_profile: "\<not> is_profile_result ''Acme Dental'' other_listing"
  by (simp add: is_profile_result_def other_fields acme_norm acme_parts other_title
        other_snippet py_lower_def char_class_defs)

lemma other_unclassified:
  "profile_matches ''Acme Dental'' [other_listing] = []
   \<and> doctor_matches ''Acme Dental'' [] [other_listing] = []
   \<and> list_matches ''Acme Dental'' [] [other_listing] = []"
  by (simp add: profile_matches_def doctor_matches_def list_matches_def other_not_profile
        is_doctor_result_def is_list_result_def other_fields other_title other_snippet)

lemma yelp_search:
  "search_stage yelp_net ''Yelp'' ''yelp.com'' ''Acme Dental'' [] ''Austin'' ''TX'' [] =
     ([other_listing], [SerperSearch yelp_query ''us''])"
  by (simp add: search_stage_def yelp_net_def yelp_query_def domain_corrections_def
        py_lower_def char_class_defs location_term_of_def is_us_def gl_param_of_def
        split_ws_def split_where_def)

lemma other_page_valid:
  "validate_and_extract_profile yelp_net ''https://www.yelp.com/biz/family-dentistry-austin''
     ''Acme Dental'' ''yelp.com'' =
     (\<lparr> valid = True, profile_url = Some ''https://www.yelp.com/biz/family-dentistry-austin'',
        blocked = False \<rparr>, [PageGet ''https://www.yelp.com/biz/family-dentistry-austin''])"
  by (simp add: validate_and_extract_profile_def yelp_net_def other_page_def found_on_page_def
        acme_norm acme_parts py_lower_def char_class_defs any_in_def)

lemma search_stage_calls: "PageGet u \<notin> set (snd (search_stage w dn dd bn doc city st country))"
  by (simp add: search_stage_def Let_def)

lemma yelp_run:
  "discover_profile_url yelp_net ''Yelp'' ''yelp.com'' ''Acme Dental'' [] ''Austin'' ''TX'' [] =
     (\<lparr> answer_status = ''not_found'', answer_url = [], answer_title = [],
        match_reason = ''uncertain_results'', candidates = Some [other_listing] \<rparr>,
      [SerperSearch yelp_query ''us''])"
  by (simp add: discover_profile_url_def skip_domains_def yelp_search prioritize_def
        other_unclassified)

text \<open>
  C4 as stated fails: the search gives one result that is no profile, doctor or list
  match, the page of that result names the business (fetching it would validate the
  result), and the resolver returns \<open>not_found\<close> after the search alone, without a
  page request.
\<close>

theorem uncertain_results_no_fallback_counterexample:
  "search_stage yelp_net ''Yelp'' ''yelp.com'' ''Acme Dental'' [] ''Austin'' ''TX'' [] =
     ([other_listing], [SerperSearch yelp_query ''us''])
   \<and> profile_matches ''Acme Dental'' [other_listing] = []
   \<and> doctor_matches ''Acme Dental'' [] [other_listing] = []
   \<and> list_matches ''Acme Dental'' [] [other_listing] = []
   \<and> valid (fst (validate_and_extract_profile yelp_net (result_url other_listing)
                   ''Acme Dental'' ''yelp.com''))
   \<and> discover_profile_url yelp_net ''Yelp'' ''yelp.com'' ''Acme Dental'' [] ''Austin'' ''TX'' [] =
       (\<lparr> answer_status = ''not_found'', answer_url = [], answer_title = [],
          match_reason = ''uncertain_results'', candidates = Some [other_listing] \<rparr>,
        [SerperSearch yelp_query ''us''])
   \<and> PageGet (result_url other_listing) \<notin> set [SerperSearch yelp_query ''us'']"
  by (simp add: yelp_search other_unclassified other_fields other_page_valid yelp_run)

text \<open>
  C4, amended.  For every run of \<open>discover_profile_url\<close> on a searchable directory in
  which the search (with its retry without the location term) returned results and none
  of them is classified as profile, doctor or list match, the resolver returns
  \<open>not_found\<close> with the match reason \<open>uncertain_results\<close> and the raw search results as
  candidates, and the run has requested no page: neither a result's page nor the
  directory's internal search.
\<close>

theorem uncertain_results_returned_unverified:
  assumes "directory_domain \<notin> set skip_domains"
      and "search_stage w directory_name directory_domain business_name doctor_name city state
             country = (results, calls)"
      and "results \<noteq> []"
      and "profile_matches business_name results = []"
      and "doctor_matches business_name doctor_name results = []"
      and "list_matches business_name doctor_name results = []"
  shows "discover_profile_url w directory_name directory_domain business_name doctor_name city
           state country =
           (\<lparr> answer_status = ''not_found'', answer_url = [], answer_title = [],
              match_reason = ''uncertain_results'', candidates = Some results \<rparr>, calls)
         \<and> PageGet u \<notin> set calls"
  using assms search_stage_calls [of u w directory_name directory_domain business_name
      doctor_name city state country]
  by (simp add: discover_profile_url_def prioritize_def)


theorem uncertain_results_returned_unverified_witness:
  "''yelp.com'' \<notin> set skip_domains
   \<and> search_stage yelp_net ''Yelp'' ''yelp.com'' ''Acme Dental'' [] ''Austin'' ''TX'' [] =
       ([other_listing], [SerperSearch yelp_query ''us''])
   \<and> [other_listing] \<noteq> []
   \<and> profile_matches ''Acme Dental'' [other_listing] = []
   \<and> doctor_matches ''Acme Dental'' [] [other_listing] = []
   \<and> list_matches ''Acme Dental'' [] [other_listing] = []
   \<and> discover_profile_url yelp_net ''Yelp'' ''yelp.com'' ''Acme Dental'' [] ''Austin'' ''TX'' [] =
       (\<lparr> answer_status = ''not_found'', answer_url = [], answer_title = [],
          match_reason = ''uncertain_results'', candidates = Some [other_listing] \<rparr>,
        [SerperSearch yelp_query ''us''])
   \<and> PageGet ''https://www.yelp.com/biz/family-dentistry-austin''
       \<notin> set [SerperSearch yelp_query ''us'']"
proof -
  have s: "''yelp.com'' \<notin> set skip_domains"
    by (simp add: skip_domains_def)
  have n: "[other_listing] \<noteq> []"
    by simp
  from uncertain_results_returned_unverified [OF s yelp_search n
      other_unclassified [THEN conjunct1]
      other_unclassified [THEN conjunct2, THEN conjunct1]
      other_unclassified [THEN conjunct2, THEN conjunct2],
      of "''https://www.yelp.com/biz/family-dentistry-austin''"]
  show ?thesis
    using s yelp_search other_unclassified by simp
qed

end
